theory Spec2Isabelle
  imports Main "HOL-Library.Char_ord" "HOL-Library.List_Lexorder"
begin

chapter \<open>The program\<close>

section \<open>Python strings\<close>

text \<open>
  Strings are lists of characters. \<open>starts_with p s\<close> is \<^verbatim>\<open>s.startswith(p)\<close>,
  \<open>py_in p s\<close> is the substring test \<^verbatim>\<open>p in s\<close>, and \<open>lower\<close> is
  \<^verbatim>\<open>str.lower()\<close> on the ASCII letters.
\<close>

fun starts_with :: "string \<Rightarrow> string \<Rightarrow> bool" where
  "starts_with [] s = True"
| "starts_with (a # p) [] = False"
| "starts_with (a # p) (b # s) = (a = b \<and> starts_with p s)"

fun py_in :: "string \<Rightarrow> string \<Rightarrow> bool" where
  "py_in p [] = (p = [])"
| "py_in p (c # s) = (starts_with p (c # s) \<or> py_in p s)"

definition lower_char :: "char \<Rightarrow> char" where
  "lower_char c =
     (case map_of (zip ''ABCDEFGHIJKLMNOPQRSTUVWXYZ'' ''abcdefghijklmnopqrstuvwxyz'') c of
        Some d \<Rightarrow> d
      | None \<Rightarrow> c)"

definition lower :: "string \<Rightarrow> string" where
  "lower s = map lower_char s"

text \<open>\<^verbatim>\<open>sep.join(xs)\<close>.\<close>

fun join :: "string \<Rightarrow> string list \<Rightarrow> string" where
  "join sep [] = []"
| "join sep [x] = x"
| "join sep (x # y # xs) = x @ sep @ join sep (y # xs)"

text \<open>\<^verbatim>\<open>str(n)\<close> for an integer: decimal digits, with a sign for negative numbers.\<close>

definition digit_char :: "nat \<Rightarrow> char" where
  "digit_char d = ''0123456789'' ! d"

function str_nat :: "nat \<Rightarrow> string" where
  "str_nat n = (if n < 10 then [digit_char n] else str_nat (n div 10) @ [digit_char (n mod 10)])"
  by pat_completeness auto
termination
  by (relation "measure (\<lambda>n. n)") auto

definition str_int :: "int \<Rightarrow> string" where
  "str_int i = (if i < 0 then CHR ''-'' # str_nat (nat (- i)) else str_nat (nat i))"

section \<open>GET /health (api/main.py, health\_check)\<close>

text \<open>
  The two awaited dependency checks either return a boolean or raise; the handler turns
  an exception into the text \<^verbatim>\<open>error: <message>\<close>. The \<open>services\<close> dictionary is kept
  as the list of its items in insertion order.
\<close>

datatype check_outcome = Returned bool | Raised string

record HealthCheck =
  status :: string
  timestamp :: nat
  version :: string
  services :: "(string \<times> string) list"

definition service_entry :: "check_outcome \<Rightarrow> string" where
  "service_entry c =
     (case c of
        Returned ok \<Rightarrow> (if ok then ''healthy'' else ''unhealthy'')
      | Raised e \<Rightarrow> ''error: '' @ e)"

definition health_services :: "check_outcome \<Rightarrow> check_outcome \<Rightarrow> (string \<times> string) list" where
  "health_services db_check cache_check =
     [(''database'', service_entry db_check),
      (''cache'', service_entry cache_check),
      (''search'', ''postgresql-based'')]"

definition overall_status :: "(string \<times> string) list \<Rightarrow> string" where
  "overall_status svcs =
     (if list_all (\<lambda>s. py_in ''healthy'' s) (map snd svcs) then ''healthy'' else ''degraded'')"

definition health_check :: "nat \<Rightarrow> string \<Rightarrow> check_outcome \<Rightarrow> check_outcome \<Rightarrow> HealthCheck" where
  "health_check now ver db_check cache_check =
     (let svcs = health_services db_check cache_check
      in \<lparr>status = overall_status svcs, timestamp = now, version = ver, services = svcs\<rparr>)"

section \<open>Domain models (shared/models.py)\<close>

text \<open>
  The two enumerations are kept as the lists of their values: with
  \<^verbatim>\<open>use_enum_values\<close> a validated model stores the value strings.
\<close>

definition Genre :: "string list" where
  "Genre = [''Action'', ''Adventure'', ''Animation'', ''Biography'', ''Comedy'', ''Crime'',
            ''Documentary'', ''Drama'', ''Family'', ''Fantasy'', ''History'', ''Horror'',
            ''Music'', ''Musical'', ''Mystery'', ''Romance'', ''Sci-Fi'', ''Sport'',
            ''Thriller'', ''War'', ''Western'']"

definition Rating :: "string list" where
  "Rating = [''G'', ''PG'', ''PG-13'', ''R'', ''NC-17'', ''NR'']"

record CastMember =
  name :: string
  role :: string
  character :: "string option"

text \<open>
  A \<open>Movie\<close> value carries the seventeen attributes of the class. Timestamps are
  natural numbers (ticks of the store's clock). The record type is also the type of the
  keyword arguments handed to the constructor: \<open>Movie_init\<close> below is \<^verbatim>\<open>Movie(**d)\<close>
  for a dictionary \<open>d\<close> that has a value of the right JSON type under every key.
\<close>

record Movie =
  movie_id :: string
  title :: string
  year :: int
  genre :: "string list"
  cast :: "CastMember list option"
  director :: "string option"
  runtime_minutes :: "int option"
  rating :: "string option"
  imdb_id :: "string option"
  budget_usd :: "int option"
  box_office_usd :: "int option"
  synopsis :: "string option"
  poster_url :: "string option"
  trailer_url :: "string option"
  provider_metadata :: "(string \<times> string) list option"
  created_at :: "nat option"
  updated_at :: "nat option"

datatype error =
  ValidationError "string list"
  | KeyError string
  | JSONDecodeError
  | RuntimeError string
  | IntegrityError string
  | DataError string
  | MultipleResultsFound

text \<open>Field constraints: a bound on an optional field only applies to a present value.\<close>

definition len_between :: "nat \<Rightarrow> nat \<Rightarrow> string \<Rightarrow> bool" where
  "len_between lo hi s = (lo \<le> length s \<and> length s \<le> hi)"

definition opt_ok :: "('a \<Rightarrow> bool) \<Rightarrow> 'a option \<Rightarrow> bool" where
  "opt_ok P v = (case v of None \<Rightarrow> True | Some x \<Rightarrow> P x)"

definition is_digit :: "char \<Rightarrow> bool" where
  "is_digit c = (c \<in> set ''0123456789'')"

text \<open>The declared pattern of \<open>imdb_id\<close>: \<^verbatim>\<open>^tt\d{7,8}$\<close>.\<close>

definition imdb_pattern :: "string \<Rightarrow> bool" where
  "imdb_pattern s =
     (starts_with ''tt'' s \<and> list_all is_digit (drop 2 s) \<and>
      (length (drop 2 s) = 7 \<or> length (drop 2 s) = 8))"

definition CastMember_ok :: "CastMember \<Rightarrow> bool" where
  "CastMember_ok m =
     (len_between 1 200 (name m) \<and> len_between 1 200 (role m) \<and>
      opt_ok (len_between 0 200) (character m))"

text \<open>The two validators of the class; each returns whether it raises.\<close>

definition unique_genres_raises :: "string list \<Rightarrow> bool" where
  "unique_genres_raises v = (length v \<noteq> length (remdups v))"

definition unique_cast_names_raises :: "CastMember list \<Rightarrow> bool" where
  "unique_cast_names_raises v =
     (if v \<noteq> [] then
        (let names = map (\<lambda>member. lower (name member)) v
         in length names \<noteq> length (remdups names))
      else False)"

text \<open>
  Per field, the declared type and bounds are checked first and the field's validator
  runs only when they hold; a \<open>None\<close> under an optional field skips both.
\<close>

definition genre_ok :: "string list \<Rightarrow> bool" where
  "genre_ok v =
     (list_all (\<lambda>g. g \<in> set Genre) v \<and> 1 \<le> length v \<and> length v \<le> 5 \<and>
      \<not> unique_genres_raises v)"

definition cast_ok :: "CastMember list option \<Rightarrow> bool" where
  "cast_ok c =
     (case c of
        None \<Rightarrow> True
      | Some v \<Rightarrow> list_all CastMember_ok v \<and> length v \<le> 100 \<and> \<not> unique_cast_names_raises v)"

definition Movie_errors :: "Movie \<Rightarrow> string list" where
  "Movie_errors d =
     (if len_between 1 100 (movie_id d) then [] else [''id'']) @
     (if len_between 1 500 (title d) then [] else [''title'']) @
     (if 1888 \<le> year d \<and> year d \<le> 2030 then [] else [''year'']) @
     (if genre_ok (genre d) then [] else [''genre'']) @
     (if cast_ok (cast d) then [] else [''cast'']) @
     (if opt_ok (len_between 0 200) (director d) then [] else [''director'']) @
     (if opt_ok (\<lambda>n. 1 \<le> n \<and> n \<le> 600) (runtime_minutes d) then [] else [''runtime_minutes'']) @
     (if opt_ok (\<lambda>r. r \<in> set Rating) (rating d) then [] else [''rating'']) @
     (if opt_ok imdb_pattern (imdb_id d) then [] else [''imdb_id'']) @
     (if opt_ok (\<lambda>n. 0 \<le> n \<and> n \<le> 1000000000) (budget_usd d) then [] else [''budget_usd'']) @
     (if opt_ok (\<lambda>n. 0 \<le> n \<and> n \<le> 10000000000) (box_office_usd d) then []
      else [''box_office_usd'']) @
     (if opt_ok (len_between 0 2000) (synopsis d) then [] else [''synopsis'']) @
     (if opt_ok (len_between 0 500) (poster_url d) then [] else [''poster_url'']) @
     (if opt_ok (len_between 0 500) (trailer_url d) then [] else [''trailer_url''])"

definition Movie_init :: "Movie \<Rightarrow> error + Movie" where
  "Movie_init d = (if Movie_errors d = [] then Inr d else Inl (ValidationError (Movie_errors d)))"

text \<open>\<^verbatim>\<open>movie.dict(exclude={'created_at', 'updated_at'})\<close>: the fifteen caller fields.\<close>

definition dict_exclude_timestamps :: "Movie \<Rightarrow> Movie" where
  "dict_exclude_timestamps m = m\<lparr>created_at := None, updated_at := None\<rparr>"

section \<open>The store (shared/database.py)\<close>

text \<open>
  A \<open>MovieModel\<close> object has the same seventeen attributes as a \<open>Movie\<close>; its two
  timestamps are unset until the row is written. The database is the \<open>movies\<close> table
  (its rows, in physical order), the session factory that \<open>connect\<close> installs, and the
  clock that \<^verbatim>\<open>datetime.utcnow\<close> reads. The clock never runs backwards: a read returns
  the current tick and time moves on.
\<close>

type_synonym MovieModel = Movie

record Database =
  session_factory :: bool
  movies :: "MovieModel list"
  clock :: nat

definition utcnow :: "Database \<Rightarrow> nat \<times> Database" where
  "utcnow db = (clock db, db\<lparr>clock := Suc (clock db)\<rparr>)"

text \<open>
  The column declarations: \<open>String(n)\<close> columns hold at most \<open>n\<close> characters and
  \<open>Integer\<close> columns hold 32-bit signed integers.
\<close>

definition String_fits :: "nat \<Rightarrow> string \<Rightarrow> bool" where
  "String_fits n s = (length s \<le> n)"

definition Integer_fits :: "int \<Rightarrow> bool" where
  "Integer_fits i = (- 2147483648 \<le> i \<and> i \<le> 2147483647)"

definition columns_fit :: "MovieModel \<Rightarrow> bool" where
  "columns_fit r =
     (String_fits 100 (movie_id r) \<and> String_fits 500 (title r) \<and> Integer_fits (year r) \<and>
      opt_ok (String_fits 200) (director r) \<and> opt_ok Integer_fits (runtime_minutes r) \<and>
      opt_ok (String_fits 10) (rating r) \<and> opt_ok (String_fits 20) (imdb_id r) \<and>
      opt_ok Integer_fits (budget_usd r) \<and> opt_ok Integer_fits (box_office_usd r) \<and>
      opt_ok (String_fits 500) (poster_url r) \<and> opt_ok (String_fits 500) (trailer_url r))"

text \<open>
  The primary key on \<open>id\<close> and the unique index on \<open>imdb_id\<close> (which admits any
  number of NULLs), checked against the other rows of the table.
\<close>

definition unique_among :: "MovieModel \<Rightarrow> MovieModel list \<Rightarrow> bool" where
  "unique_among r others =
     (movie_id r \<notin> set (map movie_id others) \<and>
      (case imdb_id r of None \<Rightarrow> True | Some i \<Rightarrow> Some i \<notin> set (map imdb_id others)))"

text \<open>
  INSERT of a new object: a timestamp column that was not set takes its default, a read
  of the clock (\<open>created_at\<close> first).
\<close>

definition session_add_commit :: "MovieModel \<Rightarrow> Database \<Rightarrow> error + (MovieModel \<times> Database)" where
  "session_add_commit db_movie db =
     (let (t1, db1) = utcnow db;
          (t2, db2) = utcnow db1;
          row = db_movie\<lparr>
                  created_at := (case created_at db_movie of None \<Rightarrow> Some t1 | Some t \<Rightarrow> Some t),
                  updated_at := (case updated_at db_movie of None \<Rightarrow> Some t2 | Some t \<Rightarrow> Some t)\<rparr>
      in if \<not> columns_fit row then Inl (DataError ''value out of range'')
         else if \<not> unique_among row (movies db) then Inl (IntegrityError ''duplicate key'')
         else Inr (row, db2\<lparr>movies := movies db @ [row]\<rparr>))"

text \<open>
  UPDATE of the loaded object in place: \<open>updated_at\<close> takes its \<open>onupdate\<close> value, and
  the constraints are checked against the rows with another id.
\<close>

definition session_commit :: "MovieModel \<Rightarrow> Database \<Rightarrow> error + (MovieModel \<times> Database)" where
  "session_commit db_movie db =
     (let (t, db1) = utcnow db;
          row = db_movie\<lparr>updated_at := Some t\<rparr>;
          others = filter (\<lambda>r. movie_id r \<noteq> movie_id row) (movies db)
      in if \<not> columns_fit row then Inl (DataError ''value out of range'')
         else if \<not> unique_among row others then Inl (IntegrityError ''duplicate key'')
         else Inr (row, db1\<lparr>movies := map (\<lambda>r. if movie_id r = movie_id row then row else r)
                                          (movies db)\<rparr>))"

definition session_delete_commit :: "MovieModel \<Rightarrow> Database \<Rightarrow> Database" where
  "session_delete_commit db_movie db =
     db\<lparr>movies := filter (\<lambda>r. movie_id r \<noteq> movie_id db_movie) (movies db)\<rparr>"

definition scalar_one_or_none :: "'a list \<Rightarrow> error + 'a option" where
  "scalar_one_or_none rs =
     (case rs of [] \<Rightarrow> Inr None | [r] \<Rightarrow> Inr (Some r) | _ \<Rightarrow> Inl MultipleResultsFound)"

text \<open>\<^verbatim>\<open>select(MovieModel).where(MovieModel.id == movie_id)\<close>.\<close>

definition select_where_id :: "string \<Rightarrow> Database \<Rightarrow> MovieModel list" where
  "select_where_id mid db = filter (\<lambda>r. movie_id r = mid) (movies db)"

subsection \<open>Operators of the database engine\<close>

text \<open>
  \<open>like p s\<close> is the pattern match \<^verbatim>\<open>s LIKE p\<close>: \<^verbatim>\<open>%\<close> stands for any run of
  characters, \<^verbatim>\<open>_\<close> for one character, and a backslash takes the next pattern character
  literally (a pattern that ends in a lone backslash matches nothing here). \<open>ilike\<close> is
  the case-insensitive variant.
\<close>

fun like :: "string \<Rightarrow> string \<Rightarrow> bool" where
  "like [] s = (s = [])"
| "like (c # p) [] = (c = CHR ''%'' \<and> like p [])"
| "like (c # p) (x # s) =
     (if c = CHR ''%'' then like p (x # s) \<or> like (c # p) s
      else if c = CHR ''_'' then like p s
      else if c = CHR 0x5C then (case p of [] \<Rightarrow> False | e # p' \<Rightarrow> x = e \<and> like p' s)
      else x = c \<and> like p s)"

definition ilike :: "string \<Rightarrow> string \<Rightarrow> bool" where
  "ilike p s = like (lower p) (lower s)"

text \<open>Array overlap: some element is common to both arrays.\<close>

definition overlap :: "string list \<Rightarrow> string list \<Rightarrow> bool" where
  "overlap xs ys = list_ex (\<lambda>x. x \<in> set ys) xs"

text \<open>
  The text of the JSON \<open>cast\<close> column: the document as \<^verbatim>\<open>json.dumps\<close> writes it, with
  quotes and backslashes inside strings escaped.
\<close>

definition json_string :: "string \<Rightarrow> string" where
  "json_string s =
     [CHR 0x22] @
     concat (map (\<lambda>c. if c = CHR 0x22 \<or> c = CHR 0x5C then [CHR 0x5C, c] else [c]) s) @
     [CHR 0x22]"

definition json_member :: "CastMember \<Rightarrow> string" where
  "json_member m =
     ''{'' @ json_string ''name'' @ '': '' @ json_string (name m) @ '', '' @
     json_string ''role'' @ '': '' @ json_string (role m) @ '', '' @
     json_string ''character'' @ '': '' @
     (case character m of None \<Rightarrow> ''null'' | Some c \<Rightarrow> json_string c) @ ''}''"

definition astext :: "CastMember list option \<Rightarrow> string" where
  "astext c =
     (case c of None \<Rightarrow> ''null'' | Some ms \<Rightarrow> ''['' @ join '', '' (map json_member ms) @ '']'')"

section \<open>The repository (shared/repositories.py)\<close>

text \<open>
  Every operation opens its own session; \<open>get_session\<close> raises when the database was
  never connected, and each operation turns any exception into \<open>None\<close>, \<open>False\<close> or
  the empty result, leaving the table as it was. The exceptions of the model are the
  missing session factory, a second row under one id, and the violations of the column
  declarations. Operations take the database and return it next to their result.
\<close>

definition get_session :: "Database \<Rightarrow> error + Database" where
  "get_session db =
     (if \<not> session_factory db then Inl (RuntimeError ''Database not connected'') else Inr db)"

text \<open>\<open>x or []\<close> on a nullable list.\<close>

definition or_empty :: "'a list option \<Rightarrow> 'a list option" where
  "or_empty v = (case v of None \<Rightarrow> Some [] | Some [] \<Rightarrow> Some [] | Some xs \<Rightarrow> Some xs)"

text \<open>
  \<open>_model_to_movie\<close> copies the row field by field. The values were validated when
  they were written, so the constructor call is a copy.
\<close>

definition model_to_movie :: "MovieModel \<Rightarrow> Movie" where
  "model_to_movie db_movie =
     \<lparr>movie_id = movie_id db_movie,
      title = title db_movie,
      year = year db_movie,
      genre = genre db_movie,
      cast = or_empty (cast db_movie),
      director = director db_movie,
      runtime_minutes = runtime_minutes db_movie,
      rating = rating db_movie,
      imdb_id = imdb_id db_movie,
      budget_usd = budget_usd db_movie,
      box_office_usd = box_office_usd db_movie,
      synopsis = synopsis db_movie,
      poster_url = poster_url db_movie,
      trailer_url = trailer_url db_movie,
      provider_metadata = or_empty (provider_metadata db_movie),
      created_at = created_at db_movie,
      updated_at = updated_at db_movie\<rparr>"

definition create_movie :: "Movie \<Rightarrow> Database \<Rightarrow> Movie option \<times> Database" where
  "create_movie movie db =
     (case get_session db of
        Inl e \<Rightarrow> (None, db)
      | Inr session \<Rightarrow>
          (let movie_data = dict_exclude_timestamps movie;
               db_movie = movie_data
           in case session_add_commit db_movie session of
                Inl e \<Rightarrow> (None, db)
              | Inr (row, db') \<Rightarrow> (Some (model_to_movie row), db')))"

definition get_movie_by_id :: "string \<Rightarrow> Database \<Rightarrow> Movie option \<times> Database" where
  "get_movie_by_id mid db =
     (case get_session db of
        Inl e \<Rightarrow> (None, db)
      | Inr session \<Rightarrow>
          (case scalar_one_or_none (select_where_id mid session) of
             Inl e \<Rightarrow> (None, db)
           | Inr None \<Rightarrow> (None, db)
           | Inr (Some db_movie) \<Rightarrow> (Some (model_to_movie db_movie), db)))"

text \<open>
  The loop over \<^verbatim>\<open>movie.dict(exclude={'id', 'created_at', 'updated_at'})\<close> assigns the
  fourteen remaining fields to the loaded row.
\<close>

definition setattr_fields :: "MovieModel \<Rightarrow> Movie \<Rightarrow> MovieModel" where
  "setattr_fields db_movie movie =
     db_movie\<lparr>title := title movie,
       year := year movie,
       genre := genre movie,
       cast := cast movie,
       director := director movie,
       runtime_minutes := runtime_minutes movie,
       rating := rating movie,
       imdb_id := imdb_id movie,
       budget_usd := budget_usd movie,
       box_office_usd := box_office_usd movie,
       synopsis := synopsis movie,
       poster_url := poster_url movie,
       trailer_url := trailer_url movie,
       provider_metadata := provider_metadata movie\<rparr>"

definition update_movie :: "Movie \<Rightarrow> Database \<Rightarrow> Movie option \<times> Database" where
  "update_movie movie db =
     (case get_session db of
        Inl e \<Rightarrow> (None, db)
      | Inr session \<Rightarrow>
          (case scalar_one_or_none (select_where_id (movie_id movie) session) of
             Inl e \<Rightarrow> (None, db)
           | Inr None \<Rightarrow> (None, db)
           | Inr (Some db_movie) \<Rightarrow>
               (case session_commit (setattr_fields db_movie movie) session of
                  Inl e \<Rightarrow> (None, db)
                | Inr (row, db') \<Rightarrow> (Some (model_to_movie row), db'))))"

definition delete_movie :: "string \<Rightarrow> Database \<Rightarrow> bool \<times> Database" where
  "delete_movie mid db =
     (case get_session db of
        Inl e \<Rightarrow> (False, db)
      | Inr session \<Rightarrow>
          (case scalar_one_or_none (select_where_id mid session) of
             Inl e \<Rightarrow> (False, db)
           | Inr None \<Rightarrow> (False, db)
           | Inr (Some db_movie) \<Rightarrow> (True, session_delete_commit db_movie session)))"

subsection \<open>Search\<close>

text \<open>
  The \<open>filters\<close> dictionary has at most the six keys below; an absent key is \<open>None\<close>.
  The genre entry is a list or a single value. \<open>filters.get(k)\<close> is tested for
  truthiness: an empty string, an empty list and the number 0 do not filter.
\<close>

datatype genre_filter = GenreList "string list" | GenreOne string

record filters =
  flt_title :: "string option"
  flt_year :: "int option"
  flt_genre :: "genre_filter option"
  flt_director :: "string option"
  flt_rating :: "string option"
  flt_cast :: "string option"

text \<open>
  The list \<open>conditions\<close>, each condition a test on a row. A comparison with a NULL
  column is not true, so such a row is not selected.
\<close>

definition conditions :: "filters \<Rightarrow> (MovieModel \<Rightarrow> bool) list" where
  "conditions f =
     (case flt_title f of
        Some t \<Rightarrow> if t \<noteq> [] then [\<lambda>r. ilike (''%'' @ t @ ''%'') (title r)] else []
      | None \<Rightarrow> []) @
     (case flt_year f of
        Some y \<Rightarrow> if y \<noteq> 0 then [\<lambda>r. year r = y] else []
      | None \<Rightarrow> []) @
     (case flt_genre f of
        Some (GenreList gs) \<Rightarrow> if gs \<noteq> [] then [\<lambda>r. overlap (genre r) gs] else []
      | Some (GenreOne g) \<Rightarrow> if g \<noteq> [] then [\<lambda>r. overlap (genre r) [g]] else []
      | None \<Rightarrow> []) @
     (case flt_director f of
        Some d \<Rightarrow>
          if d \<noteq> []
          then [\<lambda>r. case director r of None \<Rightarrow> False | Some x \<Rightarrow> ilike (''%'' @ d @ ''%'') x]
          else []
      | None \<Rightarrow> []) @
     (case flt_rating f of
        Some x \<Rightarrow> if x \<noteq> [] then [\<lambda>r. rating r = Some x] else []
      | None \<Rightarrow> []) @
     (case flt_cast f of
        Some c \<Rightarrow> if c \<noteq> [] then [\<lambda>r. ilike (''%'' @ c @ ''%'') (astext (cast r))] else []
      | None \<Rightarrow> [])"

definition and_all :: "(MovieModel \<Rightarrow> bool) list \<Rightarrow> MovieModel \<Rightarrow> bool" where
  "and_all conds r = list_all (\<lambda>c. c r) conds"

definition where_conditions :: "(MovieModel \<Rightarrow> bool) list \<Rightarrow> MovieModel list \<Rightarrow> MovieModel list" where
  "where_conditions conds rows = (if conds \<noteq> [] then filter (and_all conds) rows else rows)"

text \<open>
  \<^verbatim>\<open>order_by(MovieModel.year.desc(), MovieModel.title)\<close>: \<open>precedes a b\<close> says that row
  \<open>a\<close> may stand before row \<open>b\<close>. Titles compare character by character. The sort is an
  insertion sort that keeps rows with equal keys in table order.
\<close>

definition precedes :: "MovieModel \<Rightarrow> MovieModel \<Rightarrow> bool" where
  "precedes a b = (year a > year b \<or> (year a = year b \<and> title a \<le> title b))"

fun insert_ordered :: "MovieModel \<Rightarrow> MovieModel list \<Rightarrow> MovieModel list" where
  "insert_ordered r [] = [r]"
| "insert_ordered r (x # xs) =
     (if precedes r x then r # x # xs else x # insert_ordered r xs)"

definition order_by :: "MovieModel list \<Rightarrow> MovieModel list" where
  "order_by rows = foldr insert_ordered rows []"

definition search_movies ::
  "filters \<Rightarrow> nat \<Rightarrow> nat \<Rightarrow> Database \<Rightarrow> (Movie list \<times> nat) \<times> Database" where
  "search_movies f limit offset db =
     (case get_session db of
        Inl e \<Rightarrow> (([], 0), db)
      | Inr session \<Rightarrow>
          (let conds = conditions f;
               stmt = where_conditions conds (movies session);
               count_stmt = where_conditions conds (movies session);
               total = length count_stmt;
               db_movies = take limit (drop offset (order_by stmt))
           in ((map model_to_movie db_movies, total), db)))"

section \<open>The cache (api/cache.py)\<close>

text \<open>
  Redis holds JSON text under string keys, each entry with the lifetime in seconds it was
  stored with. The documents this service writes are a movie (\<^verbatim>\<open>movie.dict()\<close>) or a
  search response (\<^verbatim>\<open>response.dict()\<close>); \<^verbatim>\<open>json.dumps\<close> followed by
  \<^verbatim>\<open>json.loads\<close> gives the document back, so an entry is kept as the document.
  Expiry of an entry is the server's business and is not part of a call. A connected
  server answers every command; a service without a client is the case the methods test
  for first.
\<close>

record MovieResponse =
  data :: "Movie list"
  pagination :: "(string \<times> nat) list"
  total :: nat

datatype json_doc = MovieDoc Movie | ResponseDoc MovieResponse

type_synonym redis = "(string \<times> json_doc \<times> nat) list"

record RedisConfig =
  ttl_seconds :: nat

record CacheService =
  config :: RedisConfig
  client :: "redis option"

text \<open>The server's commands GET, SETEX, DEL and KEYS.\<close>

definition redis_get :: "string \<Rightarrow> redis \<Rightarrow> json_doc option" where
  "redis_get key kv = map_option fst (map_of kv key)"

definition redis_setex :: "string \<Rightarrow> nat \<Rightarrow> json_doc \<Rightarrow> redis \<Rightarrow> redis" where
  "redis_setex key ttl v kv = (key, v, ttl) # filter (\<lambda>e. fst e \<noteq> key) kv"

definition redis_delete :: "string list \<Rightarrow> redis \<Rightarrow> nat \<times> redis" where
  "redis_delete keys kv =
     (length (filter (\<lambda>k. k \<in> set keys) (remdups (map fst kv))),
      filter (\<lambda>e. fst e \<notin> set keys) kv)"

text \<open>
  Glob matching of KEYS: \<^verbatim>\<open>*\<close> stands for any run of characters, \<^verbatim>\<open>?\<close> for one
  character, a backslash takes the next character literally. Bracket classes are not
  modelled; no caller uses them.
\<close>

fun glob :: "string \<Rightarrow> string \<Rightarrow> bool" where
  "glob [] s = (s = [])"
| "glob (c # p) [] = (c = CHR ''*'' \<and> glob p [])"
| "glob (c # p) (x # s) =
     (if c = CHR ''*'' then glob p (x # s) \<or> glob (c # p) s
      else if c = CHR ''?'' then glob p s
      else if c = CHR 0x5C then (case p of [] \<Rightarrow> False | e # p' \<Rightarrow> x = e \<and> glob p' s)
      else x = c \<and> glob p s)"

definition redis_keys :: "string \<Rightarrow> redis \<Rightarrow> string list" where
  "redis_keys pattern kv = filter (glob pattern) (remdups (map fst kv))"

text \<open>The methods of \<open>CacheService\<close>. Without a client each returns its default.\<close>

definition cache_get :: "string \<Rightarrow> CacheService \<Rightarrow> json_doc option" where
  "cache_get key c =
     (case client c of
        None \<Rightarrow> None
      | Some kv \<Rightarrow> redis_get key kv)"

text \<open>\<open>ttl or self.config.ttl_seconds\<close>: an absent or zero \<open>ttl\<close> gives the default.\<close>

definition ttl_or_default :: "nat option \<Rightarrow> CacheService \<Rightarrow> nat" where
  "ttl_or_default ttl c =
     (case ttl of None \<Rightarrow> ttl_seconds (config c)
      | Some t \<Rightarrow> if t \<noteq> 0 then t else ttl_seconds (config c))"

definition cache_set :: "string \<Rightarrow> json_doc \<Rightarrow> nat option \<Rightarrow> CacheService \<Rightarrow> bool \<times> CacheService" where
  "cache_set key v ttl c =
     (case client c of
        None \<Rightarrow> (False, c)
      | Some kv \<Rightarrow> (True, c\<lparr>client := Some (redis_setex key (ttl_or_default ttl c) v kv)\<rparr>))"

definition cache_delete :: "string \<Rightarrow> CacheService \<Rightarrow> bool \<times> CacheService" where
  "cache_delete key c =
     (case client c of
        None \<Rightarrow> (False, c)
      | Some kv \<Rightarrow>
          (let (result, kv') = redis_delete [key] kv
           in (result > 0, c\<lparr>client := Some kv'\<rparr>)))"

definition invalidate_pattern :: "string \<Rightarrow> CacheService \<Rightarrow> nat \<times> CacheService" where
  "invalidate_pattern pattern c =
     (case client c of
        None \<Rightarrow> (0, c)
      | Some kv \<Rightarrow>
          (let keys = redis_keys pattern kv
           in if keys \<noteq> []
              then (let (n, kv') = redis_delete keys kv in (n, c\<lparr>client := Some kv'\<rparr>))
              else (0, c)))"

text \<open>\<open>cache_key\<close> applies \<open>str\<close> to each argument, a string or an integer.\<close>

datatype py_arg = StrArg string | IntArg int

definition str :: "py_arg \<Rightarrow> string" where
  "str a = (case a of StrArg s \<Rightarrow> s | IntArg i \<Rightarrow> str_int i)"

definition cache_key :: "string \<Rightarrow> py_arg list \<Rightarrow> string" where
  "cache_key prefix args = (prefix @ '':'') @ join '':'' (map str args)"

section \<open>The movie service (api/services.py)\<close>

text \<open>
  A \<open>MovieService\<close> holds the repository's database and the cache; each method takes the
  service and returns it next to its result. Where a constructor is applied to a cached
  document the error it would raise is the method's result: nothing in the service
  catches it. A movie document was written from a validated movie, so reading it back is a
  copy; a document of the other kind lacks the required fields.
\<close>

record MovieService =
  repository :: Database
  cache :: CacheService

record MovieSearchQuery =
  q_title :: "string option"
  q_year :: "int option"
  q_genre :: "string list option"
  q_cast :: "string option"
  q_director :: "string option"
  q_rating :: "string option"
  q_limit :: nat
  q_offset :: nat

definition Movie_of_doc :: "json_doc \<Rightarrow> error + Movie" where
  "Movie_of_doc d =
     (case d of
        MovieDoc m \<Rightarrow> Inr m
      | ResponseDoc r \<Rightarrow> Inl (ValidationError [''id'', ''title'', ''year'', ''genre'']))"

definition MovieResponse_of_doc :: "json_doc \<Rightarrow> error + MovieResponse" where
  "MovieResponse_of_doc d =
     (case d of
        ResponseDoc r \<Rightarrow> Inr r
      | MovieDoc m \<Rightarrow> Inl (ValidationError [''data'', ''pagination'', ''total'']))"

definition service_get_movie_by_id ::
  "string \<Rightarrow> MovieService \<Rightarrow> (error + Movie option) \<times> MovieService" where
  "service_get_movie_by_id mid self =
     (let key = cache_key ''movie'' [StrArg mid];
          cached_movie = cache_get key (cache self)
      in case cached_movie of
           Some doc \<Rightarrow> (map_sum id Some (Movie_of_doc doc), self)
         | None \<Rightarrow>
             (let (movie, db) = get_movie_by_id mid (repository self)
              in case movie of
                   Some m \<Rightarrow>
                     (let (ok, c) = cache_set key (MovieDoc m) None (cache self)
                      in (Inr (Some m), self\<lparr>repository := db, cache := c\<rparr>))
                 | None \<Rightarrow> (Inr None, self\<lparr>repository := db\<rparr>)))"

text \<open>\<open>x or ""\<close> on the optional query fields.\<close>

definition or_blank :: "string option \<Rightarrow> string" where
  "or_blank v = (case v of None \<Rightarrow> [] | Some s \<Rightarrow> s)"

definition search_cache_key :: "MovieSearchQuery \<Rightarrow> string" where
  "search_cache_key query =
     cache_key ''search''
       [StrArg (or_blank (q_title query)),
        (case q_year query of None \<Rightarrow> StrArg [] | Some y \<Rightarrow> if y \<noteq> 0 then IntArg y else StrArg []),
        StrArg (case q_genre query of None \<Rightarrow> [] | Some gs \<Rightarrow> if gs \<noteq> [] then join ''|'' gs else []),
        StrArg (or_blank (q_cast query)),
        StrArg (or_blank (q_director query)),
        StrArg (or_blank (q_rating query)),
        IntArg (int (q_limit query)),
        IntArg (int (q_offset query))]"

text \<open>A key enters the \<open>filters\<close> dictionary only when the query field is truthy.\<close>

definition if_truthy :: "string option \<Rightarrow> string option" where
  "if_truthy v = (case v of None \<Rightarrow> None | Some s \<Rightarrow> if s \<noteq> [] then Some s else None)"

definition build_filters :: "MovieSearchQuery \<Rightarrow> filters" where
  "build_filters query =
     \<lparr>flt_title = if_truthy (q_title query),
      flt_year = (case q_year query of None \<Rightarrow> None | Some y \<Rightarrow> if y \<noteq> 0 then Some y else None),
      flt_genre = (case q_genre query of
                     None \<Rightarrow> None
                   | Some gs \<Rightarrow> if gs \<noteq> [] then Some (GenreList gs) else None),
      flt_director = if_truthy (q_director query),
      flt_rating = if_truthy (q_rating query),
      flt_cast = if_truthy (q_cast query)\<rparr>"

definition service_search_movies ::
  "MovieSearchQuery \<Rightarrow> MovieService \<Rightarrow> (error + MovieResponse) \<times> MovieService" where
  "service_search_movies query self =
     (let key = search_cache_key query;
          cached_result = cache_get key (cache self)
      in case cached_result of
           Some doc \<Rightarrow> (MovieResponse_of_doc doc, self)
         | None \<Rightarrow>
             (let flt = build_filters query;
                  ((ms, n), db) =
                     search_movies flt (q_limit query) (q_offset query) (repository self);
                  response = \<lparr>data = ms,
                              pagination = [(''limit'', q_limit query),
                                            (''offset'', q_offset query),
                                            (''total'', n)],
                              total = n\<rparr>;
                  (ok, c) = cache_set key (ResponseDoc response) (Some 300) (cache self)
              in (Inr response, self\<lparr>repository := db, cache := c\<rparr>)))"

definition service_create_movie :: "Movie \<Rightarrow> MovieService \<Rightarrow> Movie option \<times> MovieService" where
  "service_create_movie movie self =
     (let (created_movie, db) = create_movie movie (repository self)
      in case created_movie of
           Some m \<Rightarrow>
             (let key = cache_key ''movie'' [StrArg (movie_id m)];
                  (ok, c1) = cache_set key (MovieDoc m) None (cache self);
                  (n, c2) = invalidate_pattern ''search:*'' c1
              in (Some m, self\<lparr>repository := db, cache := c2\<rparr>))
         | None \<Rightarrow> (None, self\<lparr>repository := db\<rparr>))"

definition service_update_movie :: "Movie \<Rightarrow> MovieService \<Rightarrow> Movie option \<times> MovieService" where
  "service_update_movie movie self =
     (let (updated_movie, db) = update_movie movie (repository self)
      in case updated_movie of
           Some m \<Rightarrow>
             (let key = cache_key ''movie'' [StrArg (movie_id m)];
                  (ok, c1) = cache_delete key (cache self);
                  (n, c2) = invalidate_pattern ''search:*'' c1
              in (Some m, self\<lparr>repository := db, cache := c2\<rparr>))
         | None \<Rightarrow> (None, self\<lparr>repository := db\<rparr>))"

definition service_delete_movie :: "string \<Rightarrow> MovieService \<Rightarrow> bool \<times> MovieService" where
  "service_delete_movie mid self =
     (let (deleted, db) = delete_movie mid (repository self)
      in if deleted
         then (let key = cache_key ''movie'' [StrArg mid];
                   (ok, c1) = cache_delete key (cache self);
                   (n, c2) = invalidate_pattern ''search:*'' c1
               in (True, self\<lparr>repository := db, cache := c2\<rparr>))
         else (False, self\<lparr>repository := db\<rparr>))"

section \<open>The ingestion worker (data\_processor/main.py)\<close>

text \<open>
  A queue message carries its receipt handle and a body. Parsing the body either fails or
  gives a document with a \<open>Records\<close> list, a document with a \<open>Message\<close> string (which
  again parses or not, and may or may not hold \<open>Records\<close>), or a document with neither
  key. A record has an optional \<open>eventSource\<close>; \<open>s3\<close> is the pair of
  \<^verbatim>\<open>record['s3']['bucket']['name']\<close> and \<^verbatim>\<open>record['s3']['object']['key']\<close>, or
  \<open>None\<close> when one of these keys is missing.
\<close>

record s3_event_record =
  eventSource :: "string option"
  s3 :: "(string \<times> string) option"

datatype sns_message = SnsNotJSON | SnsDoc "s3_event_record list option"

datatype message_body =
  BodyNotJSON
  | BodyRecords "s3_event_record list"
  | BodyMessage sns_message
  | BodyOther

record message =
  MessageId :: "string option"
  ReceiptHandle :: string
  Body :: message_body

text \<open>
  \<open>get_object\<close> raises a client error or returns the object; its text fails to parse as
  JSON, parses to something that is not a dictionary of the right keys and JSON types, or
  parses to the keyword arguments of \<open>Movie\<close>.
\<close>

datatype file_content = InvalidJSON | WrongShape | MovieJSON Movie

datatype get_object_result = ClientError | ObjectBody file_content

text \<open>
  The worker: its flag and counters, the database behind its repository, the receipt
  handles of the messages still on the queue, and the objects in the bucket store.
\<close>

record DataProcessor =
  is_running :: bool
  processed_count :: nat
  error_count :: nat
  database :: Database
  sqs_queue :: "string list"
  s3_objects :: "string \<times> string \<Rightarrow> get_object_result"

definition delete_message :: "string \<Rightarrow> DataProcessor \<Rightarrow> DataProcessor" where
  "delete_message receipt_handle self =
     self\<lparr>sqs_queue := filter (\<lambda>h. h \<noteq> receipt_handle) (sqs_queue self)\<rparr>"

text \<open>\<^verbatim>\<open>object_key.split('/')[1] if '/' in object_key else 'unknown'\<close>.\<close>

definition provider_name :: "string \<Rightarrow> string" where
  "provider_name object_key =
     (if CHR ''/'' \<in> set object_key
      then takeWhile (\<lambda>c. c \<noteq> CHR ''/'') (tl (dropWhile (\<lambda>c. c \<noteq> CHR ''/'') object_key))
      else ''unknown'')"

definition process_movie_data ::
  "Movie \<Rightarrow> string \<Rightarrow> string \<Rightarrow> DataProcessor \<Rightarrow> bool \<times> DataProcessor" where
  "process_movie_data movie_data provider source_key self =
     (let (existing_movie, db1) = get_movie_by_id (movie_id movie_data) (database self)
      in case existing_movie of
           Some existing \<Rightarrow>
             (let (updated_movie, db2) = update_movie movie_data db1
              in (updated_movie \<noteq> None, self\<lparr>database := db2\<rparr>))
         | None \<Rightarrow>
             (let (created_movie, db2) = create_movie movie_data db1
              in (created_movie \<noteq> None, self\<lparr>database := db2\<rparr>)))"

definition process_s3_file :: "string \<Rightarrow> string \<Rightarrow> DataProcessor \<Rightarrow> bool \<times> DataProcessor" where
  "process_s3_file bucket_name object_key self =
     (case s3_objects self (bucket_name, object_key) of
        ClientError \<Rightarrow> (False, self)
      | ObjectBody file_content \<Rightarrow>
          (case file_content of
             InvalidJSON \<Rightarrow> (False, self)
           | WrongShape \<Rightarrow> (False, self)
           | MovieJSON movie_data_dict \<Rightarrow>
               (case Movie_init movie_data_dict of
                  Inl e \<Rightarrow> (False, self)
                | Inr movie_data \<Rightarrow>
                    process_movie_data movie_data (provider_name object_key) object_key self)))"

text \<open>
  The loop over the records, with the running \<open>success_count\<close>. A record from another
  source is skipped; a record without its \<open>s3\<close> keys raises \<open>KeyError\<close> and ends the loop.
\<close>

fun process_records ::
  "s3_event_record list \<Rightarrow> nat \<Rightarrow> DataProcessor \<Rightarrow> (error + nat) \<times> DataProcessor" where
  "process_records [] success_count self = (Inr success_count, self)"
| "process_records (record # records) success_count self =
     (if eventSource record \<noteq> Some ''aws:s3'' then process_records records success_count self
      else case s3 record of
             None \<Rightarrow> (Inl (KeyError ''s3''), self)
           | Some (bucket_name, object_key) \<Rightarrow>
               (let (ok, self') = process_s3_file bucket_name object_key self
                in process_records records (if ok then success_count + 1 else success_count) self'))"

text \<open>
  The records a message body yields: \<open>Inl\<close> when parsing raises, \<open>Inr None\<close> for an
  unknown format, \<open>Inr (Some records)\<close> otherwise.
\<close>

definition extract_records :: "message_body \<Rightarrow> error + s3_event_record list option" where
  "extract_records body =
     (case body of
        BodyNotJSON \<Rightarrow> Inl JSONDecodeError
      | BodyRecords records \<Rightarrow> Inr (Some records)
      | BodyMessage SnsNotJSON \<Rightarrow> Inl JSONDecodeError
      | BodyMessage (SnsDoc None) \<Rightarrow> Inr (Some [])
      | BodyMessage (SnsDoc (Some records)) \<Rightarrow> Inr (Some records)
      | BodyOther \<Rightarrow> Inr None)"

definition process_single_message :: "message \<Rightarrow> DataProcessor \<Rightarrow> bool \<times> DataProcessor" where
  "process_single_message msg self =
     (let receipt_handle = ReceiptHandle msg
      in case extract_records (Body msg) of
           Inl e \<Rightarrow> (False, self\<lparr>error_count := error_count self + 1\<rparr>)
         | Inr None \<Rightarrow> (False, self)
         | Inr (Some records) \<Rightarrow>
             (let total_records = length records
              in case process_records records 0 self of
                   (Inl e, self') \<Rightarrow> (False, self'\<lparr>error_count := error_count self' + 1\<rparr>)
                 | (Inr success_count, self') \<Rightarrow>
                     if success_count = total_records
                     then (True, (delete_message receipt_handle self')
                                   \<lparr>processed_count := processed_count self' + success_count\<rparr>)
                     else (False, self'\<lparr>error_count :=
                                           error_count self' + (total_records - success_count)\<rparr>)))"

section \<open>Sample data\<close>

text \<open>Concrete values on which the properties below are run.\<close>

definition forrest_gump :: Movie where
  "forrest_gump =
     \<lparr>movie_id = ''tt0109830'', title = ''Forrest Gump'', year = 1994,
      genre = [''Drama'', ''Romance''],
      cast = Some [\<lparr>name = ''Tom Hanks'', role = ''actor'', character = Some ''Forrest''\<rparr>],
      director = Some ''Robert Zemeckis'', runtime_minutes = Some 142, rating = Some ''PG-13'',
      imdb_id = Some ''tt0109830'', budget_usd = Some 55000000,
      box_office_usd = Some 678200000, synopsis = None, poster_url = None,
      trailer_url = None, provider_metadata = Some [], created_at = None, updated_at = None\<rparr>"

definition pulp_fiction :: Movie where
  "pulp_fiction =
     \<lparr>movie_id = ''tt0110912'', title = ''Pulp Fiction'', year = 1994,
      genre = [''Crime'', ''Drama''],
      cast = None,
      director = Some ''Quentin Tarantino'', runtime_minutes = Some 154, rating = Some ''R'',
      imdb_id = Some ''tt0110912'', budget_usd = Some 8000000,
      box_office_usd = Some 213900000, synopsis = None, poster_url = None,
      trailer_url = None, provider_metadata = None, created_at = Some 7, updated_at = Some 3\<rparr>"

definition empty_database :: Database where
  "empty_database = \<lparr>session_factory = True, movies = [], clock = 100\<rparr>"

definition sample_bucket :: "string \<times> string \<Rightarrow> get_object_result" where
  "sample_bucket bk =
     (if bk = (''movies'', ''validated/imdb/forrest.json'') then ObjectBody (MovieJSON forrest_gump)
      else if bk = (''movies'', ''validated/imdb/broken.json'') then ObjectBody InvalidJSON
      else ClientError)"

definition sample_worker :: DataProcessor where
  "sample_worker =
     \<lparr>is_running = True, processed_count = 0, error_count = 0, database = empty_database,
      sqs_queue = [''rh-1''], s3_objects = sample_bucket\<rparr>"

definition forrest_record :: s3_event_record where
  "forrest_record =
     \<lparr>eventSource = Some ''aws:s3'', s3 = Some (''movies'', ''validated/imdb/forrest.json'')\<rparr>"

definition broken_record :: s3_event_record where
  "broken_record =
     \<lparr>eventSource = Some ''aws:s3'', s3 = Some (''movies'', ''validated/imdb/broken.json'')\<rparr>"

definition keyless_record :: s3_event_record where
  "keyless_record = \<lparr>eventSource = Some ''aws:s3'', s3 = None\<rparr>"

definition foreign_record :: s3_event_record where
  "foreign_record = \<lparr>eventSource = Some ''aws:sqs'', s3 = None\<rparr>"

definition sample_message :: "s3_event_record list \<Rightarrow> message" where
  "sample_message records =
     \<lparr>MessageId = Some ''m-1'', ReceiptHandle = ''rh-1'', Body = BodyRecords records\<rparr>"

definition toy_story :: Movie where
  "toy_story =
     \<lparr>movie_id = ''tt0114709'', title = ''Toy Story'', year = 1995,
      genre = [''Animation'', ''Family''],
      cast = Some [],
      director = None, runtime_minutes = Some 81, rating = Some ''G'',
      imdb_id = None, budget_usd = None,
      box_office_usd = None, synopsis = None, poster_url = None,
      trailer_url = None, provider_metadata = None, created_at = None, updated_at = None\<rparr>"

definition sample_database :: Database where
  "sample_database =
     \<lparr>session_factory = True,
      movies = [toy_story\<lparr>created_at := Some 1, updated_at := Some 2\<rparr>,
                pulp_fiction\<lparr>created_at := Some 3, updated_at := Some 4\<rparr>,
                forrest_gump\<lparr>created_at := Some 5, updated_at := Some 9\<rparr>],
      clock = 100\<rparr>"

definition year_1994_query :: MovieSearchQuery where
  "year_1994_query =
     \<lparr>q_title = None, q_year = Some 1994, q_genre = Some [], q_cast = None,
      q_director = None, q_rating = None, q_limit = 1, q_offset = 0\<rparr>"

definition sample_cache :: CacheService where
  "sample_cache = \<lparr>config = \<lparr>ttl_seconds = 3600\<rparr>, client = Some []\<rparr>"

definition sample_service :: MovieService where
  "sample_service = \<lparr>repository = sample_database, cache = sample_cache\<rparr>"

text \<open>
  A service whose cache already holds the document of one movie and one search response;
  a movie that is not yet in the sample store.
\<close>

definition warm_cache :: CacheService where
  "warm_cache =
     \<lparr>config = \<lparr>ttl_seconds = 3600\<rparr>,
      client = Some [(''movie:tt0114709'',
                      MovieDoc (toy_story\<lparr>created_at := Some 1, updated_at := Some 2\<rparr>), 3600),
                     (''movie:tt0110912'',
                      MovieDoc (pulp_fiction\<lparr>created_at := Some 3, updated_at := Some 4\<rparr>), 3600),
                     (''search::1994:::::1:0'',
                      ResponseDoc \<lparr>data = [], pagination = [], total = 0\<rparr>, 300)]\<rparr>"

definition warm_service :: MovieService where
  "warm_service = \<lparr>repository = sample_database, cache = warm_cache\<rparr>"

definition the_matrix :: Movie where
  "the_matrix =
     \<lparr>movie_id = ''tt0133093'', title = ''The Matrix'', year = 1999,
      genre = [''Action'', ''Sci-Fi''],
      cast = Some [],
      director = None, runtime_minutes = Some 136, rating = Some ''R'',
      imdb_id = Some ''tt0133093'', budget_usd = None,
      box_office_usd = None, synopsis = None, poster_url = None,
      trailer_url = None, provider_metadata = Some [], created_at = None, updated_at = None\<rparr>"

chapter \<open>Properties\<close>

section \<open>The health endpoint\<close>

lemma search_flag_not_healthy: "\<not> py_in ''healthy'' ''postgresql-based''"
  by simp

lemma health_check_always_degraded:
  "status (health_check now ver db_check cache_check) = ''degraded''"
  by (simp add: health_check_def overall_status_def health_services_def
      search_flag_not_healthy)

text \<open>
  C1. In every response of the health endpoint the overall status is "healthy" exactly
  when each of the three reported entries (database, cache, search flag) reads
  "healthy", and it is "degraded" otherwise. The search flag is the constant
  "postgresql-based", so the condition never holds and the status is in fact
  always "degraded" (lemma \<open>health_check_always_degraded\<close>).
\<close>

theorem health_status_iff_all_healthy:
  "status (health_check now ver db_check cache_check) =
     (if (\<forall>s \<in> set (map snd (services (health_check now ver db_check cache_check))).
            s = ''healthy'')
      then ''healthy'' else ''degraded'')"
  by (simp add: health_check_def overall_status_def health_services_def
      search_flag_not_healthy)

theorem health_status_iff_all_healthy_witness:
  "status (health_check 0 ''1.0.0'' (Returned True) (Returned True)) =
     (if (\<forall>s \<in> set (map snd (services
              (health_check 0 ''1.0.0'' (Returned True) (Returned True)))).
            s = ''healthy'')
      then ''healthy'' else ''degraded'')"
  using health_status_iff_all_healthy [of 0 "''1.0.0''" "Returned True" "Returned True"] .

section \<open>Validation\<close>

lemma length_differs_iff: "length v \<noteq> length (remdups v) \<longleftrightarrow> \<not> distinct v"
proof -
  have "length v = length (remdups v) \<longleftrightarrow> length (remdups v) = length v" by (rule eq_commute)
  also have "\<dots> \<longleftrightarrow> remdups v = v" by (rule length_remdups_eq)
  also have "\<dots> \<longleftrightarrow> distinct v" by (rule remdups_id_iff_distinct)
  finally show ?thesis by simp
qed

lemma unique_genres_raises_iff: "unique_genres_raises v \<longleftrightarrow> \<not> distinct v"
  unfolding unique_genres_raises_def by (rule length_differs_iff)

lemma unique_cast_names_raises_iff:
  "unique_cast_names_raises v \<longleftrightarrow> \<not> distinct (map (\<lambda>member. lower (name member)) v)"
proof (cases "v = []")
  case True
  then show ?thesis by (simp add: unique_cast_names_raises_def)
next
  case False
  then show ?thesis
    unfolding unique_cast_names_raises_def Let_def
    by (simp only: length_differs_iff) simp
qed

lemma repeated_not_distinct:
  assumes "i < j" "j < length xs" "xs ! i = xs ! j"
  shows "\<not> distinct xs"
proof
  assume "distinct xs"
  moreover from assms have "i < length xs" "i \<noteq> j" by simp_all
  ultimately have "xs ! i \<noteq> xs ! j" using assms(2) by (simp add: nth_eq_iff_index_eq)
  with assms(3) show False by simp
qed

lemma genre_error: "\<not> genre_ok (genre d) \<Longrightarrow> ''genre'' \<in> set (Movie_errors d)"
  by (simp add: Movie_errors_def)

lemma cast_error: "\<not> cast_ok (cast d) \<Longrightarrow> ''cast'' \<in> set (Movie_errors d)"
  by (simp add: Movie_errors_def)

lemma Movie_init_rejects:
  assumes "x \<in> set (Movie_errors d)"
  shows "Movie_init d = Inl (ValidationError (Movie_errors d))"
proof -
  from assms have "Movie_errors d \<noteq> []" by auto
  then show ?thesis by (simp add: Movie_init_def)
qed

lemma rejected_file_writes_nothing:
  assumes "Movie_init d = Inl e" "s3_objects self (bucket, key) = ObjectBody (MovieJSON d)"
  shows "process_s3_file bucket key self = (False, self)"
  using assms by (simp add: process_s3_file_def)

text \<open>
  C9. A payload in which a genre occurs twice, or in which two cast entries have names
  that are equal once lowered, makes the constructor raise a validation error; the
  worker then reports the file as failed and returns the worker, store included, exactly
  as it was.
\<close>

theorem duplicates_rejected:
  assumes "(\<exists>i j. i < j \<and> j < length (genre d) \<and> genre d ! i = genre d ! j) \<or>
           (\<exists>ms i j. cast d = Some ms \<and> i < j \<and> j < length ms \<and>
                      lower (name (ms ! i)) = lower (name (ms ! j)))"
  shows "Movie_init d = Inl (ValidationError (Movie_errors d)) \<and>
         (s3_objects self (bucket, key) = ObjectBody (MovieJSON d) \<longrightarrow>
            process_s3_file bucket key self = (False, self))"
proof -
  from assms consider
    (genres) i j where "i < j" "j < length (genre d)" "genre d ! i = genre d ! j"
    | (names) ms i j where "cast d = Some ms" "i < j" "j < length ms"
        "lower (name (ms ! i)) = lower (name (ms ! j))"
    by blast
  then have rejected: "Movie_init d = Inl (ValidationError (Movie_errors d))"
  proof cases
    case genres
    then have "\<not> distinct (genre d)" by (rule repeated_not_distinct)
    then have "\<not> genre_ok (genre d)"
      by (simp add: genre_ok_def unique_genres_raises_iff)
    then have "''genre'' \<in> set (Movie_errors d)" by (rule genre_error)
    then show ?thesis by (rule Movie_init_rejects)
  next
    case names
    let ?names = "map (\<lambda>member. lower (name member)) ms"
    from names have "i < j" "j < length ?names" "?names ! i = ?names ! j" by simp_all
    then have "\<not> distinct ?names" by (rule repeated_not_distinct)
    with names(1) have "\<not> cast_ok (cast d)"
      by (simp add: cast_ok_def unique_cast_names_raises_iff)
    then have "''cast'' \<in> set (Movie_errors d)" by (rule cast_error)
    then show ?thesis by (rule Movie_init_rejects)
  qed
  with rejected_file_writes_nothing [of d _ self bucket key] show ?thesis by simp
qed

text \<open>A payload with the genre "Drama" twice, and one with the same actor in two spellings.\<close>

theorem duplicates_rejected_witness:
  "Movie_init (forrest_gump\<lparr>genre := [''Drama'', ''Drama'']\<rparr>) =
     Inl (ValidationError [''genre'']) \<and>
   Movie_init (forrest_gump\<lparr>cast := Some
       [\<lparr>name = ''Tom Hanks'', role = ''actor'', character = None\<rparr>,
        \<lparr>name = ''TOM HANKS'', role = ''producer'', character = None\<rparr>]\<rparr>) =
     Inl (ValidationError [''cast''])"
proof -
  let ?g = "forrest_gump\<lparr>genre := [''Drama'', ''Drama'']\<rparr>"
  let ?c = "forrest_gump\<lparr>cast := Some
       [\<lparr>name = ''Tom Hanks'', role = ''actor'', character = None\<rparr>,
        \<lparr>name = ''TOM HANKS'', role = ''producer'', character = None\<rparr>]\<rparr>"
  have g: "\<exists>i j. i < j \<and> j < length (genre ?g) \<and> genre ?g ! i = genre ?g ! j"
    by (intro exI [of _ 0] exI [of _ 1]) simp
  have c: "\<exists>ms i j. cast ?c = Some ms \<and> i < j \<and> j < length ms \<and>
             lower (name (ms ! i)) = lower (name (ms ! j))"
    by (intro exI [of _ "[\<lparr>name = ''Tom Hanks'', role = ''actor'', character = None\<rparr>,
        \<lparr>name = ''TOM HANKS'', role = ''producer'', character = None\<rparr>]"]
        exI [of _ 0] exI [of _ 1]) (simp add: lower_def lower_char_def)
  have eg: "Movie_errors ?g = [''genre'']" by code_simp
  have ec: "Movie_errors ?c = [''cast'']" by code_simp
  from duplicates_rejected [of ?g, OF disjI1, OF g] duplicates_rejected [of ?c, OF disjI2, OF c]
    eg ec
  show ?thesis by simp
qed

section \<open>Search\<close>

lemma precedes_total: "precedes a b \<or> precedes b a"
  by (auto simp: precedes_def)

lemma precedes_trans: "precedes a b \<Longrightarrow> precedes b c \<Longrightarrow> precedes a c"
  by (auto simp: precedes_def)

lemma set_insert_ordered: "set (insert_ordered r xs) = insert r (set xs)"
  by (induction xs) auto

lemma length_insert_ordered: "length (insert_ordered r xs) = Suc (length xs)"
  by (induction xs) auto

lemma insert_ordered_keeps_order:
  assumes "sorted_wrt precedes xs"
  shows "sorted_wrt precedes (insert_ordered r xs)"
  using assms
proof (induction xs)
  case Nil
  show ?case by simp
next
  case (Cons x xs)
  show ?case
  proof (cases "precedes r x")
    case True
    with Cons.prems show ?thesis
      by (auto intro: precedes_trans)
  next
    case False
    then have "precedes x r" using precedes_total by blast
    with False Cons show ?thesis
      by (auto simp: set_insert_ordered)
  qed
qed

lemma order_by_ordered: "sorted_wrt precedes (order_by rows)"
  unfolding order_by_def by (induction rows) (auto intro: insert_ordered_keeps_order)

lemma length_order_by: "length (order_by rows) = length rows"
  unfolding order_by_def by (induction rows) (auto simp: length_insert_ordered)

lemma precedes_model_to_movie:
  "precedes (model_to_movie a) (model_to_movie b) = precedes a b"
  by (simp add: precedes_def model_to_movie_def)

lemma page_ordered:
  "sorted_wrt precedes (map model_to_movie (take limit (drop offset (order_by rows))))"
  by (simp add: sorted_wrt_map precedes_model_to_movie sorted_wrt_take sorted_wrt_drop
      order_by_ordered)

lemma where_conditions_filter: "where_conditions conds rows = filter (and_all conds) rows"
  by (simp add: where_conditions_def and_all_def)

text \<open>
  C7. The records a search returns are ordered by descending year, then ascending title
  (\<open>precedes\<close> holds between any record and every later one); there are at most \<open>limit\<close>
  of them; and the search leaves the store as it was, so the same search run again on the
  store it returns gives the same records in the same order.
\<close>

theorem search_ordered_bounded_repeatable:
  "sorted_wrt (\<lambda>a b. year a > year b \<or> (year a = year b \<and> title a \<le> title b))
     (fst (fst (search_movies f limit offset db))) \<and>
   length (fst (fst (search_movies f limit offset db))) \<le> limit \<and>
   snd (search_movies f limit offset db) = db \<and>
   search_movies f limit offset (snd (search_movies f limit offset db)) =
     search_movies f limit offset db"
proof -
  have "sorted_wrt precedes (fst (fst (search_movies f limit offset db)))"
    by (simp add: search_movies_def get_session_def Let_def page_ordered)
  moreover have "precedes = (\<lambda>a b. year a > year b \<or> (year a = year b \<and> title a \<le> title b))"
    by (intro ext) (simp add: precedes_def)
  ultimately show ?thesis
    by (simp add: search_movies_def get_session_def Let_def)
qed

text \<open>On the sample store, the page of two for the year 1994.\<close>

theorem search_ordered_bounded_repeatable_witness:
  "map title (fst (fst (search_movies (build_filters (year_1994_query\<lparr>q_limit := 2\<rparr>)) 2 0
                          sample_database))) = [''Forrest Gump'', ''Pulp Fiction''] \<and>
   sorted_wrt (\<lambda>a b. year a > year b \<or> (year a = year b \<and> title a \<le> title b))
     (fst (fst (search_movies (build_filters (year_1994_query\<lparr>q_limit := 2\<rparr>)) 2 0
                  sample_database)))"
proof -
  have "map title (fst (fst (search_movies (build_filters (year_1994_query\<lparr>q_limit := 2\<rparr>)) 2 0
                          sample_database))) = [''Forrest Gump'', ''Pulp Fiction'']"
    by code_simp
  with search_ordered_bounded_repeatable
         [of "build_filters (year_1994_query\<lparr>q_limit := 2\<rparr>)" 2 0 sample_database]
  show ?thesis by (simp only: simp_thms)
qed

lemma year_1994_conditions: "and_all (conditions (build_filters year_1994_query)) r = (year r = 1994)"
  by (simp add: conditions_def year_1994_query_def build_filters_def and_all_def if_truthy_def)

lemma search_total:
  assumes "session_factory db"
  shows "snd (fst (search_movies f limit offset db)) =
           length (filter (and_all (conditions f)) (movies db))"
  using assms
  by (simp add: search_movies_def get_session_def Let_def where_conditions_filter)

lemma search_page_length:
  assumes "session_factory db"
  shows "length (fst (fst (search_movies f limit offset db))) =
           min limit (length (filter (and_all (conditions f)) (movies db)) - offset)"
  using assms
  by (simp add: search_movies_def get_session_def Let_def where_conditions_filter
      length_order_by min.commute)

text \<open>
  C8. With the database connected, the total a search returns is the number of rows that
  satisfy all conditions of the filters, whatever \<open>limit\<close> and \<open>offset\<close> are: the count
  statement and the select statement are built from the same list of conditions. When
  exactly two rows of the store have the year 1994, the request with \<open>year=1994\<close> and
  \<open>limit=1\<close>, served on a cache miss, answers with \<open>total = 2\<close> and one record.
\<close>

theorem search_total_before_pagination:
  assumes "session_factory db"
  shows "snd (fst (search_movies f limit offset db)) =
           length (filter (\<lambda>r. \<forall>c \<in> set (conditions f). c r) (movies db)) \<and>
         snd (fst (search_movies f limit offset db)) =
           snd (fst (search_movies f limit' offset' db)) \<and>
         (db = repository self \<longrightarrow>
          length (filter (\<lambda>r. year r = 1994) (movies db)) = 2 \<longrightarrow>
          cache_get (search_cache_key year_1994_query) (cache self) = None \<longrightarrow>
            (\<exists>response. fst (service_search_movies year_1994_query self) = Inr response \<and>
               total response = 2 \<and> length (data response) = 1))"
proof -
  have all: "and_all (conditions f) = (\<lambda>r. \<forall>c \<in> set (conditions f). c r)"
    by (intro ext) (simp add: and_all_def list_all_iff)
  have example: "\<exists>response. fst (service_search_movies year_1994_query self) = Inr response \<and>
               total response = 2 \<and> length (data response) = 1"
    if "db = repository self" "length (filter (\<lambda>r. year r = 1994) (movies db)) = 2"
      "cache_get (search_cache_key year_1994_query) (cache self) = None"
  proof -
    obtain ms n db' where found:
      "search_movies (build_filters year_1994_query) 1 0 (repository self) = ((ms, n), db')"
      by (cases "search_movies (build_filters year_1994_query) 1 0 (repository self)") auto
    from found that(1,2) assms have "n = 2"
      using search_total [of db "build_filters year_1994_query" 1 0]
      by (simp add: year_1994_conditions cong: filter_cong)
    moreover from found that(1,2) assms have "length ms = 1"
      using search_page_length [of db "build_filters year_1994_query" 1 0]
      by (simp add: year_1994_conditions cong: filter_cong)
    moreover have "q_limit year_1994_query = 1" "q_offset year_1994_query = 0"
      by (simp_all add: year_1994_query_def)
    ultimately show ?thesis
      using found that(3)
      by (simp add: service_search_movies_def Let_def split: prod.splits)
  qed
  from assms example show ?thesis
    by (simp add: search_total all [symmetric])
qed

theorem search_total_before_pagination_witness:
  "session_factory sample_database \<and>
   length (filter (\<lambda>r. year r = 1994) (movies sample_database)) = 2 \<and>
   cache_get (search_cache_key year_1994_query) (cache sample_service) = None \<and>
   snd (fst (search_movies (build_filters year_1994_query) 1 0 sample_database)) = 2 \<and>
   (\<exists>response. fst (service_search_movies year_1994_query sample_service) = Inr response \<and>
      total response = 2 \<and> length (data response) = 1)"
proof -
  have h1: "session_factory sample_database"
    by (simp add: sample_database_def)
  have h2: "sample_database = repository sample_service"
    by (simp add: sample_service_def)
  have h3: "length (filter (\<lambda>r. year r = 1994) (movies sample_database)) = 2"
    by (simp add: sample_database_def toy_story_def pulp_fiction_def forrest_gump_def)
  have h4: "cache_get (search_cache_key year_1994_query) (cache sample_service) = None"
    by (simp add: cache_get_def sample_service_def sample_cache_def redis_get_def)
  have h5: "snd (fst (search_movies (build_filters year_1994_query) 1 0 sample_database)) = 2"
    by code_simp
  from search_total_before_pagination
         [OF h1, of "build_filters year_1994_query" 1 0 1 0 sample_service] h2 h3 h4
  have "\<exists>response. fst (service_search_movies year_1994_query sample_service) = Inr response \<and>
          total response = 2 \<and> length (data response) = 1"
    by blast
  with h1 h3 h4 h5 show ?thesis by blast
qed

section \<open>Create, read back, upsert\<close>

lemma or_empty_cases: "or_empty v = (case v of None \<Rightarrow> Some [] | Some xs \<Rightarrow> Some xs)"
  by (simp add: or_empty_def split: option.splits list.splits)

lemma dict_of_model_to_movie:
  "dict_exclude_timestamps (model_to_movie r) =
     (dict_exclude_timestamps r)\<lparr>cast := or_empty (cast r),
        provider_metadata := or_empty (provider_metadata r)\<rparr>"
  by (simp add: dict_exclude_timestamps_def model_to_movie_def)

text \<open>What a successful \<open>create_movie\<close> has done.\<close>

lemma create_movie_Some:
  assumes "create_movie payload db = (Some created, db1)"
  defines "row \<equiv> (dict_exclude_timestamps payload)
                     \<lparr>created_at := Some (clock db), updated_at := Some (Suc (clock db))\<rparr>"
  shows "session_factory db" and "created = model_to_movie row"
    and "movies db1 = movies db @ [row]" and "session_factory db1"
    and "columns_fit row" and "unique_among row (movies db)"
proof -
  from assms(1) show c: "session_factory db"
    by (auto simp: create_movie_def get_session_def split: if_splits)
  have ins: "session_add_commit (dict_exclude_timestamps payload) db =
               (if \<not> columns_fit row then Inl (DataError ''value out of range'')
                else if \<not> unique_among row (movies db) then Inl (IntegrityError ''duplicate key'')
                else Inr (row, db\<lparr>clock := Suc (Suc (clock db)), movies := movies db @ [row]\<rparr>))"
    by (simp add: session_add_commit_def utcnow_def row_def dict_exclude_timestamps_def Let_def)
  from assms(1) c have r: "(case session_add_commit (dict_exclude_timestamps payload) db of
                              Inl e \<Rightarrow> (None, db)
                            | Inr (row, db') \<Rightarrow> (Some (model_to_movie row), db'))
                           = (Some created, db1)"
    by (simp add: create_movie_def get_session_def Let_def)
  from r show fit: "columns_fit row" unfolding ins by (simp split: if_splits)
  from r fit show uniq: "unique_among row (movies db)" unfolding ins by (simp split: if_splits)
  from r fit uniq show "created = model_to_movie row" unfolding ins by auto
  from r fit uniq have "db1 = db\<lparr>clock := Suc (Suc (clock db)), movies := movies db @ [row]\<rparr>"
    unfolding ins by auto
  with c show "movies db1 = movies db @ [row]" "session_factory db1" by simp_all
qed

lemma no_row_with_id:
  assumes "i \<notin> set (map movie_id rows)"
  shows "filter (\<lambda>r. movie_id r = i) rows = []"
  using assms by (induction rows) auto

text \<open>
  C4, as the code has it. When \<open>create_movie\<close> succeeds, reading the id back returns the
  record that \<open>create_movie\<close> returned. It agrees with the payload on every field other
  than the two timestamps, except that a null \<open>cast\<close> or a null \<open>provider_metadata\<close>
  comes back empty instead of null. Both timestamps are the store's clock readings
  whatever the payload carried there, so they are present and \<open>updated_at\<close> is not before
  \<open>created_at\<close>.
\<close>

theorem create_then_get_by_id:
  assumes "create_movie payload db = (Some created, db1)"
  shows "get_movie_by_id (movie_id payload) db1 = (Some created, db1) \<and>
         dict_exclude_timestamps created =
           (dict_exclude_timestamps payload)\<lparr>cast := or_empty (cast payload),
              provider_metadata := or_empty (provider_metadata payload)\<rparr> \<and>
         (cast payload \<noteq> None \<and> provider_metadata payload \<noteq> None \<longrightarrow>
            dict_exclude_timestamps created = dict_exclude_timestamps payload) \<and>
         created_at created = Some (clock db) \<and> updated_at created = Some (Suc (clock db)) \<and>
         (\<exists>c u. created_at created = Some c \<and> updated_at created = Some u \<and> c \<le> u)"
proof -
  define row where "row = (dict_exclude_timestamps payload)
                     \<lparr>created_at := Some (clock db), updated_at := Some (Suc (clock db))\<rparr>"
  note facts = create_movie_Some [OF assms, folded row_def]
  have id_row: "movie_id row = movie_id payload"
    by (simp add: row_def dict_exclude_timestamps_def)
  from facts(6) have "movie_id payload \<notin> set (map movie_id (movies db))"
    by (simp add: unique_among_def id_row)
  then have "filter (\<lambda>r. movie_id r = movie_id payload) (movies db) = []"
    by (rule no_row_with_id)
  with facts(3) id_row have "select_where_id (movie_id payload) db1 = [row]"
    by (simp add: select_where_id_def)
  with facts(2,4) have read: "get_movie_by_id (movie_id payload) db1 = (Some created, db1)"
    by (simp add: get_movie_by_id_def get_session_def scalar_one_or_none_def)
  have fields: "dict_exclude_timestamps created =
           (dict_exclude_timestamps payload)\<lparr>cast := or_empty (cast payload),
              provider_metadata := or_empty (provider_metadata payload)\<rparr>"
    unfolding facts(2) dict_of_model_to_movie
    by (simp add: row_def dict_exclude_timestamps_def)
  have same: "dict_exclude_timestamps created = dict_exclude_timestamps payload"
    if "cast payload \<noteq> None" "provider_metadata payload \<noteq> None"
  proof -
    from that have "or_empty (cast payload) = cast payload"
      "or_empty (provider_metadata payload) = provider_metadata payload"
      by (auto simp: or_empty_cases)
    then show ?thesis
      unfolding fields by (cases payload) (simp add: dict_exclude_timestamps_def)
  qed
  have stamps: "created_at created = Some (clock db)" "updated_at created = Some (Suc (clock db))"
    unfolding facts(2) by (simp_all add: model_to_movie_def row_def)
  from read fields same stamps show ?thesis by simp
qed

theorem create_then_get_by_id_witness:
  "get_movie_by_id (movie_id forrest_gump) (snd (create_movie forrest_gump empty_database)) =
     (fst (create_movie forrest_gump empty_database), snd (create_movie forrest_gump empty_database)) \<and>
   map_option dict_exclude_timestamps (fst (create_movie forrest_gump empty_database)) =
     Some (dict_exclude_timestamps forrest_gump) \<and>
   map_option created_at (fst (create_movie forrest_gump empty_database)) = Some (Some 100) \<and>
   map_option updated_at (fst (create_movie forrest_gump empty_database)) = Some (Some 101)"
proof -
  have "fst (create_movie forrest_gump empty_database) \<noteq> None" by code_simp
  then obtain created db1 where c:
    "create_movie forrest_gump empty_database = (Some created, db1)"
    by (metis prod.collapse option.exhaust)
  have p: "cast forrest_gump \<noteq> None \<and> provider_metadata forrest_gump \<noteq> None \<and>
           clock empty_database = 100"
    by (simp add: forrest_gump_def empty_database_def)
  note t = create_then_get_by_id [OF c]
  from t have a: "get_movie_by_id (movie_id forrest_gump) db1 = (Some created, db1)"
    by (rule conjunct1)
  from t p have b: "dict_exclude_timestamps created = dict_exclude_timestamps forrest_gump"
    by blast
  from t p have d: "created_at created = Some 100 \<and> updated_at created = Some 101"
    by auto
  from a b d show ?thesis by (simp add: c)
qed

text \<open>
  The claim as written promises equality on every field but the timestamps. The sample
  payload below is valid and has a null \<open>cast\<close>; what is read back has the empty list.
\<close>

theorem null_cast_comes_back_empty:
  "Movie_init pulp_fiction = Inr pulp_fiction \<and>
   cast pulp_fiction = None \<and>
   map_option cast (fst (get_movie_by_id (movie_id pulp_fiction)
                           (snd (create_movie pulp_fiction empty_database)))) = Some (Some [])"
  by code_simp

section \<open>Idempotent upsert\<close>

lemma scalar_one_or_none_Some: "scalar_one_or_none rs = Inr (Some r) \<longleftrightarrow> rs = [r]"
  by (auto simp: scalar_one_or_none_def split: list.splits)

lemma scalar_one_or_none_None: "scalar_one_or_none rs = Inr None \<longleftrightarrow> rs = []"
  by (auto simp: scalar_one_or_none_def split: list.splits)

lemma get_movie_by_id_db: "snd (get_movie_by_id mid db) = db"
  by (simp add: get_movie_by_id_def split: sum.splits option.splits)

lemma get_movie_by_id_Some:
  assumes "fst (get_movie_by_id mid db) = Some m"
  shows "session_factory db \<and> (\<exists>r. select_where_id mid db = [r] \<and> m = model_to_movie r)"
proof (cases "session_factory db")
  case False
  with assms show ?thesis by (simp add: get_movie_by_id_def get_session_def)
next
  case True
  show ?thesis
  proof (cases "scalar_one_or_none (select_where_id mid db)")
    case (Inl e)
    with True assms show ?thesis by (simp add: get_movie_by_id_def get_session_def)
  next
    case (Inr found)
    with True assms obtain r where "found = Some r" "m = model_to_movie r"
      by (cases found) (auto simp: get_movie_by_id_def get_session_def)
    with Inr True show ?thesis by (simp add: scalar_one_or_none_Some)
  qed
qed

lemma replace_row_select:
  assumes "movie_id row = i"
  shows "filter (\<lambda>r. movie_id r = i) (map (\<lambda>r. if movie_id r = i then row else r) rows) =
           map (\<lambda>r. row) (filter (\<lambda>r. movie_id r = i) rows)"
  using assms by (induction rows) auto

lemma setattr_fields_dict:
  "movie_id r0 = movie_id movie \<Longrightarrow>
   dict_exclude_timestamps ((setattr_fields r0 movie)\<lparr>updated_at := t\<rparr>) =
     dict_exclude_timestamps movie"
  by (cases r0; cases movie) (simp add: dict_exclude_timestamps_def setattr_fields_def)

text \<open>What a successful \<open>update_movie\<close> has done.\<close>

lemma update_movie_Some:
  assumes "update_movie movie db = (Some updated, db1)"
  shows "\<exists>r0 row. select_where_id (movie_id movie) db = [r0] \<and>
           row = (setattr_fields r0 movie)\<lparr>updated_at := Some (clock db)\<rparr> \<and>
           movies db1 = map (\<lambda>r. if movie_id r = movie_id movie then row else r) (movies db) \<and>
           session_factory db1 \<and> updated = model_to_movie row \<and> columns_fit row \<and>
           unique_among row (filter (\<lambda>r. movie_id r \<noteq> movie_id movie) (movies db))"
proof -
  from assms have c: "session_factory db"
    by (auto simp: update_movie_def get_session_def split: if_splits)
  from assms c obtain r0 where sel: "scalar_one_or_none (select_where_id (movie_id movie) db) =
                                      Inr (Some r0)"
    by (auto simp: update_movie_def get_session_def split: sum.splits option.splits)
  then have one: "select_where_id (movie_id movie) db = [r0]"
    by (simp add: scalar_one_or_none_Some)
  then have "r0 \<in> set (filter (\<lambda>r. movie_id r = movie_id movie) (movies db))"
    by (simp add: select_where_id_def)
  then have id0: "movie_id r0 = movie_id movie" by simp
  define row where "row = (setattr_fields r0 movie)\<lparr>updated_at := Some (clock db)\<rparr>"
  have id_row: "movie_id row = movie_id movie"
    using id0 by (simp add: row_def setattr_fields_def)
  from assms c sel obtain out where
    commit: "session_commit (setattr_fields r0 movie) db = Inr out"
    and res: "(case out of (row, db') \<Rightarrow> (Some (model_to_movie row), db')) = (Some updated, db1)"
    by (auto simp: update_movie_def get_session_def split: sum.splits)
  from commit have "out = (row, db\<lparr>clock := Suc (clock db),
      movies := map (\<lambda>r. if movie_id r = movie_id movie then row else r) (movies db)\<rparr>)"
    and ok: "columns_fit row"
      "unique_among row (filter (\<lambda>r. movie_id r \<noteq> movie_id movie) (movies db))"
    by (auto simp: session_commit_def utcnow_def Let_def row_def [symmetric] id_row
        split: if_splits)
  with res c have "updated = model_to_movie row"
    "movies db1 = map (\<lambda>r. if movie_id r = movie_id movie then row else r) (movies db)"
    "session_factory db1"
    by auto
  with one row_def ok show ?thesis by blast
qed

text \<open>The upsert: look the id up, update when a record is found, create otherwise.\<close>

lemma process_movie_data_upsert:
  "process_movie_data m p k self =
     (case fst (get_movie_by_id (movie_id m) (database self)) of
        Some existing \<Rightarrow>
          (fst (update_movie m (database self)) \<noteq> None,
           self\<lparr>database := snd (update_movie m (database self))\<rparr>)
      | None \<Rightarrow>
          (fst (create_movie m (database self)) \<noteq> None,
           self\<lparr>database := snd (create_movie m (database self))\<rparr>))"
proof -
  obtain found db1 where g: "get_movie_by_id (movie_id m) (database self) = (found, db1)"
    by (cases "get_movie_by_id (movie_id m) (database self)")
  with get_movie_by_id_db [of "movie_id m" "database self"] have "db1 = database self" by simp
  with g show ?thesis
    by (simp add: process_movie_data_def split: option.splits prod.splits)
qed

text \<open>After a successful ingestion of a movie, its id selects exactly one row, with its fields.\<close>

lemma process_movie_data_stored:
  assumes "process_movie_data m p k self = (True, self1)"
  shows "map dict_exclude_timestamps (select_where_id (movie_id m) (database self1)) =
           [dict_exclude_timestamps m] \<and> session_factory (database self1)"
proof (cases "fst (get_movie_by_id (movie_id m) (database self))")
  case None
  with assms have "fst (create_movie m (database self)) \<noteq> None"
    "database self1 = snd (create_movie m (database self))"
    by (auto simp: process_movie_data_upsert)
  then obtain created where
    cr: "create_movie m (database self) = (Some created, database self1)"
    by (metis prod.collapse option.exhaust)
  define row where "row = (dict_exclude_timestamps m)
      \<lparr>created_at := Some (clock (database self)), updated_at := Some (Suc (clock (database self)))\<rparr>"
  note facts = create_movie_Some [OF cr, folded row_def]
  have id_row: "movie_id row = movie_id m"
    by (simp add: row_def dict_exclude_timestamps_def)
  from facts(6) have "movie_id m \<notin> set (map movie_id (movies (database self)))"
    by (simp add: unique_among_def id_row)
  then have "filter (\<lambda>r. movie_id r = movie_id m) (movies (database self)) = []"
    by (rule no_row_with_id)
  with facts(3) id_row have "select_where_id (movie_id m) (database self1) = [row]"
    by (simp add: select_where_id_def)
  moreover have "dict_exclude_timestamps row = dict_exclude_timestamps m"
    by (simp add: row_def dict_exclude_timestamps_def)
  ultimately show ?thesis using facts(4) by simp
next
  case (Some existing)
  with assms have "fst (update_movie m (database self)) \<noteq> None"
    "database self1 = snd (update_movie m (database self))"
    by (auto simp: process_movie_data_upsert)
  then obtain updated where
    up: "update_movie m (database self) = (Some updated, database self1)"
    by (metis prod.collapse option.exhaust)
  from update_movie_Some [OF up] obtain r0 row where
    one: "select_where_id (movie_id m) (database self) = [r0]"
    and row: "row = (setattr_fields r0 m)\<lparr>updated_at := Some (clock (database self))\<rparr>"
    and rows: "movies (database self1) =
                 map (\<lambda>r. if movie_id r = movie_id m then row else r) (movies (database self))"
    and conn: "session_factory (database self1)"
    by blast
  from one have "r0 \<in> set (filter (\<lambda>r. movie_id r = movie_id m) (movies (database self)))"
    by (simp add: select_where_id_def)
  then have id0: "movie_id r0 = movie_id m" by simp
  then have id_row: "movie_id row = movie_id m" by (simp add: row setattr_fields_def)
  from rows one have "select_where_id (movie_id m) (database self1) = [row]"
    by (simp add: select_where_id_def replace_row_select [OF id_row])
  moreover have "dict_exclude_timestamps row = dict_exclude_timestamps m"
    unfolding row using id0 by (rule setattr_fields_dict)
  ultimately show ?thesis using conn by simp
qed


lemma select_one_found:
  assumes "select_where_id mid db = [r]" "session_factory db"
  shows "fst (get_movie_by_id mid db) = Some (model_to_movie r)"
  using assms by (simp add: get_movie_by_id_def get_session_def scalar_one_or_none_def)

lemma update_keeps_row_count:
  assumes "update_movie movie db = (Some updated, db1)"
  shows "length (movies db1) = length (movies db)"
  using update_movie_Some [OF assms] by auto

text \<open>
  Replaying an object that was ingested successfully succeeds again: the row the first
  write left satisfies the constraints the second write checks.
\<close>

lemma unique_among_subset:
  assumes "unique_among r others" "set others' \<subseteq> set others"
  shows "unique_among r others'"
  using assms by (auto simp: unique_among_def split: option.splits)

lemma replace_row_others:
  assumes "movie_id row = i"
  shows "filter (\<lambda>r. movie_id r \<noteq> i) (map (\<lambda>r. if movie_id r = i then row else r) rows) =
           filter (\<lambda>r. movie_id r \<noteq> i) rows"
  using assms by (induction rows) auto

lemma setattr_same_fields:
  assumes "dict_exclude_timestamps r = dict_exclude_timestamps m"
  shows "setattr_fields r m = r"
  using assms by (cases r; cases m) (simp add: dict_exclude_timestamps_def setattr_fields_def)

lemma process_movie_data_constraints:
  assumes "process_movie_data m p k self = (True, self1)"
  shows "\<exists>row. select_where_id (movie_id m) (database self1) = [row] \<and> columns_fit row \<and>
           unique_among row (filter (\<lambda>r. movie_id r \<noteq> movie_id m) (movies (database self1)))"
proof (cases "fst (get_movie_by_id (movie_id m) (database self))")
  case None
  with assms have "fst (create_movie m (database self)) \<noteq> None"
    "database self1 = snd (create_movie m (database self))"
    by (auto simp: process_movie_data_upsert)
  then obtain created where
    cr: "create_movie m (database self) = (Some created, database self1)"
    by (metis prod.collapse option.exhaust)
  define row where "row = (dict_exclude_timestamps m)
      \<lparr>created_at := Some (clock (database self)), updated_at := Some (Suc (clock (database self)))\<rparr>"
  note facts = create_movie_Some [OF cr, folded row_def]
  have id_row: "movie_id row = movie_id m"
    by (simp add: row_def dict_exclude_timestamps_def)
  from facts(6) have "movie_id m \<notin> set (map movie_id (movies (database self)))"
    by (simp add: unique_among_def id_row)
  then have "filter (\<lambda>r. movie_id r = movie_id m) (movies (database self)) = []"
    by (rule no_row_with_id)
  with facts(3) id_row have one: "select_where_id (movie_id m) (database self1) = [row]"
    by (simp add: select_where_id_def)
  from facts(3) id_row
  have "set (filter (\<lambda>r. movie_id r \<noteq> movie_id m) (movies (database self1))) \<subseteq>
          set (movies (database self))"
    by auto
  with facts(6) have "unique_among row
      (filter (\<lambda>r. movie_id r \<noteq> movie_id m) (movies (database self1)))"
    by (rule unique_among_subset)
  with one facts(5) show ?thesis by blast
next
  case (Some existing)
  with assms have "fst (update_movie m (database self)) \<noteq> None"
    "database self1 = snd (update_movie m (database self))"
    by (auto simp: process_movie_data_upsert)
  then obtain updated where
    up: "update_movie m (database self) = (Some updated, database self1)"
    by (metis prod.collapse option.exhaust)
  from update_movie_Some [OF up] obtain r0 row where
    one: "select_where_id (movie_id m) (database self) = [r0]"
    and row: "row = (setattr_fields r0 m)\<lparr>updated_at := Some (clock (database self))\<rparr>"
    and rows: "movies (database self1) =
                 map (\<lambda>r. if movie_id r = movie_id m then row else r) (movies (database self))"
    and fit: "columns_fit row"
    and uniq: "unique_among row
                 (filter (\<lambda>r. movie_id r \<noteq> movie_id m) (movies (database self)))"
    by blast
  from one have "r0 \<in> set (filter (\<lambda>r. movie_id r = movie_id m) (movies (database self)))"
    by (simp add: select_where_id_def)
  then have "movie_id r0 = movie_id m" by simp
  then have id_row: "movie_id row = movie_id m" by (simp add: row setattr_fields_def)
  from rows one have "select_where_id (movie_id m) (database self1) = [row]"
    by (simp add: select_where_id_def replace_row_select [OF id_row])
  moreover from rows uniq have "unique_among row
      (filter (\<lambda>r. movie_id r \<noteq> movie_id m) (movies (database self1)))"
    by (simp add: replace_row_others [OF id_row])
  ultimately show ?thesis using fit by blast
qed

lemma replay_succeeds:
  assumes "process_movie_data m p k self = (True, self1)"
  shows "fst (process_movie_data m p' k' self1)"
proof -
  let ?db = "database self1"
  from process_movie_data_constraints [OF assms] obtain row where
    one: "select_where_id (movie_id m) ?db = [row]"
    and fit: "columns_fit row"
    and uniq: "unique_among row (filter (\<lambda>r. movie_id r \<noteq> movie_id m) (movies ?db))"
    by blast
  from process_movie_data_stored [OF assms] one
  have fields: "dict_exclude_timestamps row = dict_exclude_timestamps m"
    and conn: "session_factory ?db"
    by simp_all
  from one have "row \<in> set (filter (\<lambda>r. movie_id r = movie_id m) (movies ?db))"
    by (simp add: select_where_id_def)
  then have id_row: "movie_id row = movie_id m" by simp
  let ?row' = "row\<lparr>updated_at := Some (clock ?db)\<rparr>"
  have fit': "columns_fit ?row'" using fit by (simp add: columns_fit_def)
  have uniq': "unique_among ?row' (filter (\<lambda>r. movie_id r \<noteq> movie_id ?row') (movies ?db))"
    using uniq id_row by (simp add: unique_among_def)
  have "session_commit (setattr_fields row m) ?db =
          Inr (?row', ?db\<lparr>clock := Suc (clock ?db),
                 movies := map (\<lambda>r. if movie_id r = movie_id ?row' then ?row' else r) (movies ?db)\<rparr>)"
    unfolding setattr_same_fields [OF fields]
    using fit' uniq' by (simp add: session_commit_def utcnow_def Let_def)
  with one conn have "fst (update_movie m ?db) \<noteq> None"
    by (simp add: update_movie_def get_session_def scalar_one_or_none_def)
  moreover from one conn have "fst (get_movie_by_id (movie_id m) ?db) \<noteq> None"
    by (simp add: select_one_found)
  ultimately show ?thesis
    by (auto simp: process_movie_data_upsert)
qed


text \<open>
  C6. The worker looks the id up and updates when a record is found, creates otherwise
  (first conjunct). After two successful ingestions with the same id, the id selects
  exactly one row, and that row has the field values of the second write; the second
  write found the record of the first and went through the update, so the table has as
  many rows as after the first write. Submitting the first object once more after its
  successful ingestion succeeds as well.
\<close>

theorem ingestion_idempotent_upsert:
  assumes "process_movie_data m1 p1 k1 self = (True, self1)"
    and "process_movie_data m2 p2 k2 self1 = (True, self2)"
    and "movie_id m2 = movie_id m1"
  shows "process_movie_data m1 p1 k1 self =
           (case fst (get_movie_by_id (movie_id m1) (database self)) of
              Some existing \<Rightarrow>
                (fst (update_movie m1 (database self)) \<noteq> None,
                 self\<lparr>database := snd (update_movie m1 (database self))\<rparr>)
            | None \<Rightarrow>
                (fst (create_movie m1 (database self)) \<noteq> None,
                 self\<lparr>database := snd (create_movie m1 (database self))\<rparr>)) \<and>
         map dict_exclude_timestamps (select_where_id (movie_id m1) (database self2)) =
           [dict_exclude_timestamps m2] \<and>
         length (select_where_id (movie_id m1) (database self1)) = 1 \<and>
         fst (get_movie_by_id (movie_id m2) (database self1)) \<noteq> None \<and>
         database self2 = snd (update_movie m2 (database self1)) \<and>
         length (movies (database self2)) = length (movies (database self1)) \<and>
         fst (process_movie_data m1 p2 k2 self1)"
proof -
  note first = process_movie_data_stored [OF assms(1)]
  note second = process_movie_data_stored [OF assms(2)]
  from first obtain r1 where one: "select_where_id (movie_id m1) (database self1) = [r1]"
    by auto
  with first assms(3) have found:
    "fst (get_movie_by_id (movie_id m2) (database self1)) = Some (model_to_movie r1)"
    by (simp add: select_one_found)
  with assms(2) have path: "fst (update_movie m2 (database self1)) \<noteq> None"
    "database self2 = snd (update_movie m2 (database self1))"
    by (auto simp: process_movie_data_upsert)
  then obtain updated where
    "update_movie m2 (database self1) = (Some updated, database self2)"
    by (metis prod.collapse option.exhaust)
  then have c6: "length (movies (database self2)) = length (movies (database self1))"
    by (rule update_keeps_row_count)
  note c1 = process_movie_data_upsert [of m1 p1 k1 self]
  from second have c2: "map dict_exclude_timestamps
      (select_where_id (movie_id m1) (database self2)) = [dict_exclude_timestamps m2]"
    unfolding assms(3) by (rule conjunct1)
  from one have c3: "length (select_where_id (movie_id m1) (database self1)) = 1" by simp
  from found have c4: "fst (get_movie_by_id (movie_id m2) (database self1)) \<noteq> None" by simp
  have c7: "fst (process_movie_data m1 p2 k2 self1)"
    using assms(1) by (rule replay_succeeds)
  from c1 c2 c3 c4 path(2) c6 c7 show ?thesis by (intro conjI)
qed

lemma succeeded_pair: "fst p \<Longrightarrow> p = (True, snd p)"
  by (cases p) simp

text \<open>
  The sample file is ingested into the empty store, then again with another title: one
  row, with the second title.
\<close>

theorem ingestion_idempotent_upsert_witness:
  "fst (process_movie_data forrest_gump ''imdb'' ''k'' sample_worker) \<and>
   fst (process_movie_data (forrest_gump\<lparr>title := ''Forrest Gump (1994)''\<rparr>) ''imdb'' ''k''
          (snd (process_movie_data forrest_gump ''imdb'' ''k'' sample_worker))) \<and>
   map title (movies (database
     (snd (process_movie_data (forrest_gump\<lparr>title := ''Forrest Gump (1994)''\<rparr>) ''imdb'' ''k''
            (snd (process_movie_data forrest_gump ''imdb'' ''k'' sample_worker)))))) =
     [''Forrest Gump (1994)''] \<and>
   map dict_exclude_timestamps (select_where_id (movie_id forrest_gump) (database
     (snd (process_movie_data (forrest_gump\<lparr>title := ''Forrest Gump (1994)''\<rparr>) ''imdb'' ''k''
            (snd (process_movie_data forrest_gump ''imdb'' ''k'' sample_worker)))))) =
     [dict_exclude_timestamps (forrest_gump\<lparr>title := ''Forrest Gump (1994)''\<rparr>)]"
proof -
  let ?m2 = "forrest_gump\<lparr>title := ''Forrest Gump (1994)''\<rparr>"
  let ?w1 = "snd (process_movie_data forrest_gump ''imdb'' ''k'' sample_worker)"
  let ?w2 = "snd (process_movie_data ?m2 ''imdb'' ''k'' ?w1)"
  have ok1: "fst (process_movie_data forrest_gump ''imdb'' ''k'' sample_worker)"
    by code_simp
  have ok2: "fst (process_movie_data ?m2 ''imdb'' ''k'' ?w1)"
    by code_simp
  have titles: "map title (movies (database ?w2)) = [''Forrest Gump (1994)'']"
    by code_simp
  from ok1 have r1: "process_movie_data forrest_gump ''imdb'' ''k'' sample_worker = (True, ?w1)"
    by (rule succeeded_pair)
  from ok2 have r2: "process_movie_data ?m2 ''imdb'' ''k'' ?w1 = (True, ?w2)"
    by (rule succeeded_pair)
  have same: "movie_id ?m2 = movie_id forrest_gump" by simp
  note w = ingestion_idempotent_upsert [OF r1 r2 same]
  from w [THEN conjunct2, THEN conjunct1] ok1 ok2 titles show ?thesis by (intro conjI)
qed

section \<open>The cache\<close>

lemma movie_key: "cache_key ''movie'' [StrArg mid] = ''movie:'' @ mid"
  by (simp add: cache_key_def str_def)

lemma map_of_filter_keys:
  "map_of (filter (\<lambda>e. P (fst e)) kv) k = (if P k then map_of kv k else None)"
  by (induction kv) auto

lemma glob_star: "glob ''*'' s"
  by (induction s) auto

lemma glob_search_namespace: "glob ''search:*'' k \<longleftrightarrow> starts_with ''search:'' k"
proof -
  have step: "glob (c # p) s = (case s of [] \<Rightarrow> False | x # s' \<Rightarrow> x = c \<and> glob p s')"
    if "c \<noteq> CHR ''*''" "c \<noteq> CHR ''?''" "c \<noteq> CHR 0x5C" for c p s
    using that by (cases s) auto
  show ?thesis
    by (auto simp: step glob_star split: list.splits)
qed

lemma redis_get_setex:
  "redis_get k (redis_setex key ttl v kv) = (if k = key then Some v else redis_get k kv)"
  using map_of_filter_keys [of "\<lambda>x. x \<noteq> key" kv k]
  by (simp add: redis_get_def redis_setex_def)

lemma cache_get_after_set:
  assumes "client c = Some kv"
  shows "cache_get k (snd (cache_set key v ttl c)) = (if k = key then Some v else cache_get k c)"
  using assms by (simp add: cache_get_def cache_set_def redis_get_setex)

lemma cache_get_after_delete:
  "cache_get k (snd (cache_delete key c)) = (if k = key then None else cache_get k c)"
proof (cases "client c")
  case None
  then show ?thesis by (simp add: cache_get_def cache_delete_def)
next
  case (Some kv)
  with map_of_filter_keys [of "\<lambda>x. x \<noteq> key" kv k] show ?thesis
    by (simp add: cache_get_def cache_delete_def redis_delete_def redis_get_def)
qed

lemma cache_get_after_invalidate:
  "cache_get k (snd (invalidate_pattern pattern c)) =
     (if glob pattern k then None else cache_get k c)"
proof (cases "client c")
  case None
  then show ?thesis by (simp add: cache_get_def invalidate_pattern_def)
next
  case (Some kv)
  let ?keys = "redis_keys pattern kv"
  have keys: "set ?keys = {x \<in> fst ` set kv. glob pattern x}"
    by (auto simp: redis_keys_def)
  show ?thesis
  proof (cases "?keys = []")
    case True
    with keys have none: "\<forall>x \<in> fst ` set kv. \<not> glob pattern x" by auto
    have "map_of kv k = None" if "glob pattern k"
      using that none by (auto simp: map_of_eq_None_iff)
    with Some True show ?thesis
      by (simp add: cache_get_def invalidate_pattern_def redis_get_def)
  next
    case False
    have same: "filter (\<lambda>e. fst e \<notin> set ?keys) kv = filter (\<lambda>e. \<not> glob pattern (fst e)) kv"
      by (rule filter_cong) (auto simp: keys)
    from Some False map_of_filter_keys [of "\<lambda>x. \<not> glob pattern x" kv k] show ?thesis
      by (simp add: cache_get_def invalidate_pattern_def redis_get_def redis_delete_def same)
  qed
qed

lemma not_search_key: "\<not> glob ''search:*'' (''movie:'' @ mid)"
  by (simp add: glob_search_namespace)

section \<open>Write paths of the service\<close>

text \<open>The cache after each write that succeeded in the repository.\<close>

lemma service_update_movie_cache:
  assumes "service_update_movie movie self = (Some m, self')"
  shows "fst (update_movie movie (repository self)) = Some m \<and>
         cache self' = snd (invalidate_pattern ''search:*''
                              (snd (cache_delete (''movie:'' @ movie_id m) (cache self))))"
  using assms
  by (auto simp: service_update_movie_def movie_key split: prod.splits option.splits)

lemma service_delete_movie_cache:
  assumes "service_delete_movie mid self = (True, self')"
  shows "fst (delete_movie mid (repository self)) \<and>
         cache self' = snd (invalidate_pattern ''search:*''
                              (snd (cache_delete (''movie:'' @ mid) (cache self))))"
  using assms
  by (auto simp: service_delete_movie_def movie_key split: prod.splits if_splits)

lemma service_create_movie_cache:
  assumes "service_create_movie movie self = (Some m, self')"
  shows "fst (create_movie movie (repository self)) = Some m \<and>
         cache self' = snd (invalidate_pattern ''search:*''
                              (snd (cache_set (''movie:'' @ movie_id m) (MovieDoc m) None
                                      (cache self))))"
  using assms
  by (auto simp: service_create_movie_def movie_key split: prod.splits option.splits)

lemma updated_id:
  assumes "fst (update_movie movie db) = Some m"
  shows "movie_id m = movie_id movie"
proof -
  from assms have "update_movie movie db = (Some m, snd (update_movie movie db))"
    by (metis prod.collapse)
  from update_movie_Some [OF this] obtain r0 where
    one: "select_where_id (movie_id movie) db = [r0]"
    and m: "m = model_to_movie ((setattr_fields r0 movie)\<lparr>updated_at := Some (clock db)\<rparr>)"
    by blast
  from one have "r0 \<in> set (filter (\<lambda>r. movie_id r = movie_id movie) (movies db))"
    by (simp add: select_where_id_def)
  then have "movie_id r0 = movie_id movie" by simp
  with m show ?thesis by (simp add: model_to_movie_def setattr_fields_def)
qed

lemma created_id:
  assumes "fst (create_movie movie db) = Some m"
  shows "movie_id m = movie_id movie"
proof -
  from assms have "create_movie movie db = (Some m, snd (create_movie movie db))"
    by (metis prod.collapse)
  from create_movie_Some(2) [OF this] show ?thesis
    by (simp add: model_to_movie_def dict_exclude_timestamps_def)
qed

text \<open>
  C3, as the code has it. After a successful \<open>updateMovie\<close> or \<open>deleteMovie\<close> the cache
  has no entry under the movie's key and no entry under any key of the search namespace.
  After a successful \<open>createMovie\<close> the search namespace is swept in the same way, but the
  movie's key is not deleted: with a connected cache it now holds the created record.
\<close>

theorem writes_invalidate_cache:
  "(service_update_movie movie_u self = (Some m_u, self_u) \<longrightarrow>
      cache_get (''movie:'' @ movie_id movie_u) (cache self_u) = None \<and>
      (\<forall>k. starts_with ''search:'' k \<longrightarrow> cache_get k (cache self_u) = None)) \<and>
   (service_delete_movie mid self = (True, self_d) \<longrightarrow>
      cache_get (''movie:'' @ mid) (cache self_d) = None \<and>
      (\<forall>k. starts_with ''search:'' k \<longrightarrow> cache_get k (cache self_d) = None)) \<and>
   (service_create_movie movie_c self = (Some m_c, self_c) \<longrightarrow>
      (client (cache self) \<noteq> None \<longrightarrow>
         cache_get (''movie:'' @ movie_id movie_c) (cache self_c) = Some (MovieDoc m_c)) \<and>
      (\<forall>k. starts_with ''search:'' k \<longrightarrow> cache_get k (cache self_c) = None))"
proof (intro conjI impI allI)
  assume u: "service_update_movie movie_u self = (Some m_u, self_u)"
  note fact = service_update_movie_cache [OF u]
  have id: "movie_id m_u = movie_id movie_u"
    using fact [THEN conjunct1] by (rule updated_id)
  from fact id show "cache_get (''movie:'' @ movie_id movie_u) (cache self_u) = None"
    by (simp add: cache_get_after_invalidate cache_get_after_delete)
  fix k assume "starts_with ''search:'' k"
  with fact show "cache_get k (cache self_u) = None"
    by (simp add: cache_get_after_invalidate glob_search_namespace)
next
  assume d: "service_delete_movie mid self = (True, self_d)"
  note fact = service_delete_movie_cache [OF d]
  from fact show "cache_get (''movie:'' @ mid) (cache self_d) = None"
    by (simp add: cache_get_after_invalidate cache_get_after_delete)
  fix k assume "starts_with ''search:'' k"
  with fact show "cache_get k (cache self_d) = None"
    by (simp add: cache_get_after_invalidate glob_search_namespace)
next
  assume c: "service_create_movie movie_c self = (Some m_c, self_c)"
  note fact = service_create_movie_cache [OF c]
  have id: "movie_id m_c = movie_id movie_c"
    using fact [THEN conjunct1] by (rule created_id)
  {
    assume "client (cache self) \<noteq> None"
    then obtain kv where "client (cache self) = Some kv" by auto
    with fact id show "cache_get (''movie:'' @ movie_id movie_c) (cache self_c) = Some (MovieDoc m_c)"
      by (simp add: cache_get_after_invalidate cache_get_after_set not_search_key)
  }
  fix k assume "starts_with ''search:'' k"
  with fact show "cache_get k (cache self_c) = None"
    by (simp add: cache_get_after_invalidate glob_search_namespace)
qed

text \<open>
  On the sample service with entries under two movie keys and a search key: an update,
  a delete and a create, each of which succeeds.
\<close>

theorem writes_invalidate_cache_witness:
  "cache_get ''movie:tt0114709'' (cache warm_service) \<noteq> None \<and>
   cache_get ''movie:tt0110912'' (cache warm_service) \<noteq> None \<and>
   cache_get ''search::1994:::::1:0'' (cache warm_service) \<noteq> None \<and>
   fst (service_update_movie toy_story warm_service) \<noteq> None \<and>
   cache_get ''movie:tt0114709'' (cache (snd (service_update_movie toy_story warm_service))) = None \<and>
   cache_get ''search::1994:::::1:0''
     (cache (snd (service_update_movie toy_story warm_service))) = None \<and>
   fst (service_delete_movie ''tt0110912'' warm_service) \<and>
   cache_get ''movie:tt0110912''
     (cache (snd (service_delete_movie ''tt0110912'' warm_service))) = None \<and>
   cache_get ''search::1994:::::1:0''
     (cache (snd (service_delete_movie ''tt0110912'' warm_service))) = None \<and>
   fst (service_create_movie the_matrix warm_service) \<noteq> None \<and>
   cache_get ''movie:tt0133093'' (cache (snd (service_create_movie the_matrix warm_service))) =
     map_option MovieDoc (fst (service_create_movie the_matrix warm_service)) \<and>
   cache_get ''search::1994:::::1:0''
     (cache (snd (service_create_movie the_matrix warm_service))) = None"
proof -
  have before: "cache_get ''movie:tt0114709'' (cache warm_service) \<noteq> None \<and>
      cache_get ''movie:tt0110912'' (cache warm_service) \<noteq> None \<and>
      cache_get ''search::1994:::::1:0'' (cache warm_service) \<noteq> None"
    by (simp add: warm_service_def warm_cache_def cache_get_def redis_get_def)
  have conn: "client (cache warm_service) \<noteq> None"
    by (simp add: warm_service_def warm_cache_def)
  have ids: "movie_id toy_story = ''tt0114709''" "movie_id the_matrix = ''tt0133093''"
    by (simp_all add: toy_story_def the_matrix_def)
  have ns: "starts_with ''search:'' ''search::1994:::::1:0''" by simp
  have "fst (service_update_movie toy_story warm_service) \<noteq> None" by code_simp
  then obtain m_u self_u where u: "service_update_movie toy_story warm_service = (Some m_u, self_u)"
    by (metis prod.collapse option.exhaust)
  have "fst (service_delete_movie ''tt0110912'' warm_service)" by code_simp
  then obtain self_d where d: "service_delete_movie ''tt0110912'' warm_service = (True, self_d)"
    by (metis succeeded_pair)
  have "fst (service_create_movie the_matrix warm_service) \<noteq> None" by code_simp
  then obtain m_c self_c where c: "service_create_movie the_matrix warm_service = (Some m_c, self_c)"
    by (metis prod.collapse option.exhaust)
  note w = writes_invalidate_cache
             [of toy_story warm_service m_u self_u "''tt0110912''" self_d the_matrix m_c self_c]
  from w u have wu: "cache_get (''movie:'' @ movie_id toy_story) (cache self_u) = None"
    "\<forall>k. starts_with ''search:'' k \<longrightarrow> cache_get k (cache self_u) = None" by blast+
  from w d have wd: "cache_get (''movie:'' @ ''tt0110912'') (cache self_d) = None"
    "\<forall>k. starts_with ''search:'' k \<longrightarrow> cache_get k (cache self_d) = None" by blast+
  from w c conn have wc:
    "cache_get (''movie:'' @ movie_id the_matrix) (cache self_c) = Some (MovieDoc m_c)"
    "\<forall>k. starts_with ''search:'' k \<longrightarrow> cache_get k (cache self_c) = None" by blast+
  from wu(2) wd(2) wc(2) ns have swept:
    "cache_get ''search::1994:::::1:0'' (cache self_u) = None"
    "cache_get ''search::1994:::::1:0'' (cache self_d) = None"
    "cache_get ''search::1994:::::1:0'' (cache self_c) = None" by blast+
  from before wu(1) wd(1) wc(1) swept show ?thesis
    by (simp add: u d c ids)
qed

text \<open>
  The claim as written says that every write path deletes the movie's key. After the
  create below the key is present.
\<close>

theorem create_sets_cache_entry:
  "fst (service_create_movie the_matrix warm_service) \<noteq> None \<and>
   cache_get (cache_key ''movie'' [StrArg (movie_id the_matrix)]) (cache warm_service) = None \<and>
   cache_get (cache_key ''movie'' [StrArg (movie_id the_matrix)])
     (cache (snd (service_create_movie the_matrix warm_service))) \<noteq> None"
  by code_simp

section \<open>Cache-aside read\<close>

lemma service_get_hit:
  assumes "cache_get (''movie:'' @ mid) (cache self) = Some doc"
  shows "service_get_movie_by_id mid self = (map_sum id Some (Movie_of_doc doc), self)"
  using assms by (simp add: service_get_movie_by_id_def movie_key)

lemma service_get_miss:
  assumes "cache_get (''movie:'' @ mid) (cache self) = None"
  shows "service_get_movie_by_id mid self =
           (case fst (get_movie_by_id mid (repository self)) of
              Some m \<Rightarrow>
                (Inr (Some m),
                 self\<lparr>cache := snd (cache_set (''movie:'' @ mid) (MovieDoc m) None (cache self))\<rparr>)
            | None \<Rightarrow> (Inr None, self))"
proof -
  obtain found db where g: "get_movie_by_id mid (repository self) = (found, db)"
    by (cases "get_movie_by_id mid (repository self)")
  with get_movie_by_id_db [of mid "repository self"] have "db = repository self" by simp
  with g assms show ?thesis
    by (simp add: service_get_movie_by_id_def movie_key split: option.splits prod.splits)
qed

text \<open>
  C10. \<open>getMovieById\<close> looks the key \<open>movie:{id}\<close> up in the cache. On a hit it returns
  the cached document read back as a movie and changes nothing. On a miss it asks the
  repository: a record that is found is returned and, with a connected cache, stored
  under the key with the configured default lifetime; when no record is found the result
  is absent and the cache is left as it was.
\<close>

theorem get_movie_by_id_cache_aside:
  "(cache_get (''movie:'' @ mid1) (cache self) = Some doc \<longrightarrow>
      service_get_movie_by_id mid1 self = (map_sum id Some (Movie_of_doc doc), self) \<and>
      (\<forall>m. doc = MovieDoc m \<longrightarrow> fst (service_get_movie_by_id mid1 self) = Inr (Some m))) \<and>
   (cache_get (''movie:'' @ mid2) (cache self) = None \<longrightarrow>
    fst (get_movie_by_id mid2 (repository self)) = Some found \<longrightarrow>
      fst (service_get_movie_by_id mid2 self) = Inr (Some found) \<and>
      repository (snd (service_get_movie_by_id mid2 self)) = repository self \<and>
      (\<forall>kv. client (cache self) = Some kv \<longrightarrow>
         client (cache (snd (service_get_movie_by_id mid2 self))) =
           Some (redis_setex (''movie:'' @ mid2) (ttl_seconds (config (cache self)))
                   (MovieDoc found) kv) \<and>
         cache_get (''movie:'' @ mid2) (cache (snd (service_get_movie_by_id mid2 self))) =
           Some (MovieDoc found))) \<and>
   (cache_get (''movie:'' @ mid3) (cache self) = None \<longrightarrow>
    fst (get_movie_by_id mid3 (repository self)) = None \<longrightarrow>
      service_get_movie_by_id mid3 self = (Inr None, self))"
proof (intro conjI impI allI)
  assume hit: "cache_get (''movie:'' @ mid1) (cache self) = Some doc"
  then show "service_get_movie_by_id mid1 self = (map_sum id Some (Movie_of_doc doc), self)"
    by (rule service_get_hit)
  fix m assume "doc = MovieDoc m"
  with service_get_hit [OF hit] show "fst (service_get_movie_by_id mid1 self) = Inr (Some m)"
    by (simp add: Movie_of_doc_def)
next
  assume miss: "cache_get (''movie:'' @ mid2) (cache self) = None"
    and found: "fst (get_movie_by_id mid2 (repository self)) = Some found"
  from service_get_miss [OF miss] found
  have r: "service_get_movie_by_id mid2 self =
             (Inr (Some found),
              self\<lparr>cache := snd (cache_set (''movie:'' @ mid2) (MovieDoc found) None (cache self))\<rparr>)"
    by simp
  from r show "fst (service_get_movie_by_id mid2 self) = Inr (Some found)" by simp
  from r show "repository (snd (service_get_movie_by_id mid2 self)) = repository self" by simp
  fix kv assume kv: "client (cache self) = Some kv"
  with r show "client (cache (snd (service_get_movie_by_id mid2 self))) =
                 Some (redis_setex (''movie:'' @ mid2) (ttl_seconds (config (cache self)))
                         (MovieDoc found) kv)"
    by (simp add: cache_set_def ttl_or_default_def)
  from r kv show "cache_get (''movie:'' @ mid2) (cache (snd (service_get_movie_by_id mid2 self))) =
                    Some (MovieDoc found)"
    by (simp add: cache_get_after_set)
next
  assume miss: "cache_get (''movie:'' @ mid3) (cache self) = None"
    and "fst (get_movie_by_id mid3 (repository self)) = None"
  with service_get_miss [OF miss] show "service_get_movie_by_id mid3 self = (Inr None, self)"
    by simp
qed

text \<open>
  On the sample service: a cached movie (hit), a movie that is only in the store (miss,
  found and then cached for 3600 seconds), and an id that is nowhere.
\<close>

theorem get_movie_by_id_cache_aside_witness:
  "cache_get (''movie:'' @ ''tt0114709'') (cache warm_service) =
     Some (MovieDoc (toy_story\<lparr>created_at := Some 1, updated_at := Some 2\<rparr>)) \<and>
   fst (service_get_movie_by_id ''tt0114709'' warm_service) =
     Inr (Some (toy_story\<lparr>created_at := Some 1, updated_at := Some 2\<rparr>)) \<and>
   cache_get (''movie:'' @ ''tt0109830'') (cache warm_service) = None \<and>
   fst (get_movie_by_id ''tt0109830'' (repository warm_service)) \<noteq> None \<and>
   fst (service_get_movie_by_id ''tt0109830'' warm_service) =
     Inr (fst (get_movie_by_id ''tt0109830'' (repository warm_service))) \<and>
   map_option (map_option snd)
     (map_option (\<lambda>kv. map_of kv (''movie:'' @ ''tt0109830''))
        (client (cache (snd (service_get_movie_by_id ''tt0109830'' warm_service))))) =
     Some (Some 3600) \<and>
   cache_get (''movie:'' @ ''nowhere'') (cache warm_service) = None \<and>
   fst (get_movie_by_id ''nowhere'' (repository warm_service)) = None \<and>
   service_get_movie_by_id ''nowhere'' warm_service = (Inr None, warm_service)"
proof -
  let ?toy = "toy_story\<lparr>created_at := Some 1, updated_at := Some 2\<rparr>"
  have h1: "cache_get (''movie:'' @ ''tt0114709'') (cache warm_service) = Some (MovieDoc ?toy)"
    by (simp add: warm_service_def warm_cache_def cache_get_def redis_get_def)
  have h2: "cache_get (''movie:'' @ ''tt0109830'') (cache warm_service) = None"
    by (simp add: warm_service_def warm_cache_def cache_get_def redis_get_def)
  have "fst (get_movie_by_id ''tt0109830'' (repository warm_service)) \<noteq> None"
    by code_simp
  then obtain found where h3: "fst (get_movie_by_id ''tt0109830'' (repository warm_service)) = Some found"
    by auto
  have h4: "cache_get (''movie:'' @ ''nowhere'') (cache warm_service) = None"
    by (simp add: warm_service_def warm_cache_def cache_get_def redis_get_def)
  have h5: "fst (get_movie_by_id ''nowhere'' (repository warm_service)) = None"
    by code_simp
  obtain kv where h6: "client (cache warm_service) = Some kv"
    by (simp add: warm_service_def warm_cache_def)
  have h7: "ttl_seconds (config (cache warm_service)) = 3600"
    by (simp add: warm_service_def warm_cache_def)
  note w = get_movie_by_id_cache_aside
             [of "''tt0114709''" warm_service "MovieDoc ?toy" "''tt0109830''" found "''nowhere''"]
  from w h1 have a: "fst (service_get_movie_by_id ''tt0114709'' warm_service) = Inr (Some ?toy)"
    by blast
  from w h2 h3 have b: "fst (service_get_movie_by_id ''tt0109830'' warm_service) = Inr (Some found)"
    by blast
  from w h2 h3 h6 have "client (cache (snd (service_get_movie_by_id ''tt0109830'' warm_service))) =
      Some (redis_setex (''movie:'' @ ''tt0109830'') (ttl_seconds (config (cache warm_service)))
              (MovieDoc found) kv)"
    by blast
  then have c: "map_option (map_option snd)
     (map_option (\<lambda>kv. map_of kv (''movie:'' @ ''tt0109830''))
        (client (cache (snd (service_get_movie_by_id ''tt0109830'' warm_service))))) =
     Some (Some 3600)"
    by (simp add: redis_setex_def h7)
  from w h4 h5 have d: "service_get_movie_by_id ''nowhere'' warm_service = (Inr None, warm_service)"
    by blast
  from h1 a h2 h3 b c h4 h5 d show ?thesis by simp
qed

section \<open>The ingestion worker\<close>

text \<open>Processing a file touches the database only: queue and counters stay as they were.\<close>

lemma process_movie_data_frame:
  "process_movie_data m p k self = (ok, self') \<Longrightarrow>
   sqs_queue self' = sqs_queue self \<and> processed_count self' = processed_count self \<and>
   error_count self' = error_count self \<and> s3_objects self' = s3_objects self"
  unfolding process_movie_data_def
  by (cases "get_movie_by_id (movie_id m) (database self)";
      cases "fst (get_movie_by_id (movie_id m) (database self))";
      cases "update_movie m (snd (get_movie_by_id (movie_id m) (database self)))";
      cases "create_movie m (snd (get_movie_by_id (movie_id m) (database self)))";
      auto)

lemma process_s3_file_frame:
  assumes "process_s3_file b k self = (ok, self')"
  shows "sqs_queue self' = sqs_queue self \<and> processed_count self' = processed_count self \<and>
         error_count self' = error_count self \<and> s3_objects self' = s3_objects self"
proof (cases "s3_objects self (b, k)")
  case ClientError
  with assms show ?thesis by (auto simp: process_s3_file_def)
next
  case (ObjectBody content)
  show ?thesis
  proof (cases content)
    case (MovieJSON d)
    show ?thesis
    proof (cases "Movie_init d")
      case (Inl e)
      with assms ObjectBody MovieJSON show ?thesis
        by (auto simp: process_s3_file_def)
    next
      case (Inr movie)
      with assms ObjectBody MovieJSON show ?thesis
        by (simp add: process_s3_file_def process_movie_data_frame)
    qed
  qed (use assms ObjectBody in \<open>auto simp: process_s3_file_def\<close>)
qed

lemma process_records_frame:
  "process_records rs n self = (res, self') \<Longrightarrow>
   sqs_queue self' = sqs_queue self \<and> processed_count self' = processed_count self \<and>
   error_count self' = error_count self"
proof (induction rs arbitrary: n self)
  case Nil
  then show ?case by simp
next
  case (Cons r rs)
  show ?case
  proof (cases "eventSource r \<noteq> Some ''aws:s3''")
    case True
    with Cons show ?thesis by simp
  next
    case False
    note src = this
    show ?thesis
    proof (cases "s3 r")
      case None
      with src Cons.prems show ?thesis by simp
    next
      case (Some bk)
      obtain b k where bk: "bk = (b, k)" by (cases bk)
      obtain ok s1 where step: "process_s3_file b k self = (ok, s1)"
        by (cases "process_s3_file b k self")
      from Cons.prems src Some bk step
      have "process_records rs (if ok then n + 1 else n) s1 = (res, self')" by simp
      from Cons.IH [OF this] process_s3_file_frame [OF step] show ?thesis by simp
    qed
  qed
qed

text \<open>
  The success count the loop returns is at most the start value plus the number of
  records whose source is \<open>aws:s3\<close>: a skipped record never adds to it.
\<close>

lemma process_records_bound:
  "process_records rs n self = (Inr k, self') \<Longrightarrow>
   k \<le> n + length (filter (\<lambda>r. eventSource r = Some ''aws:s3'') rs)"
proof (induction rs arbitrary: n self)
  case Nil
  then show ?case by simp
next
  case (Cons r rs)
  show ?case
  proof (cases "eventSource r = Some ''aws:s3''")
    case False
    with Cons.prems have "process_records rs n self = (Inr k, self')" by simp
    from Cons.IH [OF this] False show ?thesis by simp
  next
    case True
    show ?thesis
    proof (cases "s3 r")
      case None
      with True Cons.prems show ?thesis by simp
    next
      case (Some bk)
      obtain b key where bk: "bk = (b, key)" by (cases bk)
      obtain ok s1 where step: "process_s3_file b key self = (ok, s1)"
        by (cases "process_s3_file b key self")
      from Cons.prems True Some bk step
      have "process_records rs (if ok then n + 1 else n) s1 = (Inr k, self')" by simp
      from Cons.IH [OF this] True show ?thesis by (simp split: if_splits)
    qed
  qed
qed

lemma process_records_le_length:
  assumes "process_records rs 0 self = (Inr k, self')"
  shows "k \<le> length rs"
proof -
  have "k \<le> 0 + length (filter (\<lambda>r. eventSource r = Some ''aws:s3'') rs)"
    using assms by (rule process_records_bound)
  also have "\<dots> \<le> length rs" by simp
  finally show ?thesis .
qed

lemma skipped_record_blocks:
  assumes "r \<in> set rs" "eventSource r \<noteq> Some ''aws:s3''"
    and "process_records rs 0 self = (Inr k, self')"
  shows "k < length rs"
proof -
  have "k \<le> 0 + length (filter (\<lambda>r. eventSource r = Some ''aws:s3'') rs)"
    using assms(3) by (rule process_records_bound)
  also have "\<dots> < length rs"
    using length_filter_less [of r rs "\<lambda>r. eventSource r = Some ''aws:s3''"] assms(1,2)
    by simp
  finally show ?thesis .
qed

text \<open>
  C5. When the records extracted from a message include one whose \<open>eventSource\<close> is not
  \<open>aws:s3\<close>, the worker reports failure, leaves the message on the queue and does not
  raise \<open>processed_count\<close>, whatever happens to the other records: a loop that runs to
  its end returns a success count below the number of records.
\<close>

theorem skipped_record_never_acknowledged:
  assumes "extract_records (Body msg) = Inr (Some records)"
    and "\<exists>r \<in> set records. eventSource r \<noteq> Some ''aws:s3''"
  shows "fst (process_single_message msg self) = False \<and>
         sqs_queue (snd (process_single_message msg self)) = sqs_queue self \<and>
         processed_count (snd (process_single_message msg self)) = processed_count self \<and>
         (\<forall>k self'. process_records records 0 self = (Inr k, self') \<longrightarrow> k < length records)"
proof -
  obtain res s1 where run: "process_records records 0 self = (res, s1)"
    by (cases "process_records records 0 self")
  note frame = process_records_frame [OF run]
  from assms(2) obtain r where r: "r \<in> set records" "eventSource r \<noteq> Some ''aws:s3''"
    by blast
  have below: "k < length records" if "process_records records 0 self = (Inr k, self')"
    for k self'
    using skipped_record_blocks [OF r that] .
  show ?thesis
  proof (cases res)
    case (Inl e)
    with run assms(1) frame below show ?thesis
      by (simp add: process_single_message_def)
  next
    case (Inr k)
    with run have "k < length records" using below by blast
    with Inr run assms(1) frame below show ?thesis
      by (simp add: process_single_message_def)
  qed
qed

text \<open>
  The sample message holds the record of a valid file, which is written to the store, and
  a record from another source.
\<close>

theorem skipped_record_never_acknowledged_witness:
  "fst (process_s3_file ''movies'' ''validated/imdb/forrest.json'' sample_worker) \<and>
   fst (process_single_message (sample_message [forrest_record, foreign_record]) sample_worker)
     = False \<and>
   sqs_queue (snd (process_single_message (sample_message [forrest_record, foreign_record])
                     sample_worker)) = sqs_queue sample_worker \<and>
   processed_count (snd (process_single_message (sample_message [forrest_record, foreign_record])
                           sample_worker)) = processed_count sample_worker"
proof -
  have h1: "extract_records (Body (sample_message [forrest_record, foreign_record])) =
              Inr (Some [forrest_record, foreign_record])"
    by (simp add: extract_records_def sample_message_def)
  have h2: "\<exists>r \<in> set [forrest_record, foreign_record]. eventSource r \<noteq> Some ''aws:s3''"
    by (simp add: foreign_record_def)
  have h3: "fst (process_s3_file ''movies'' ''validated/imdb/forrest.json'' sample_worker)"
    by code_simp
  from skipped_record_never_acknowledged [OF h1 h2, of sample_worker] h3
  show ?thesis by (simp only: simp_thms)
qed

text \<open>What \<open>process_single_message\<close> does in each of its outcomes.\<close>

lemma message_raises:
  assumes "extract_records (Body msg) = Inl e \<or>
           (extract_records (Body msg) = Inr (Some records) \<and>
            process_records records 0 self = (Inl e, s1))"
  shows "fst (process_single_message msg self) = False \<and>
         sqs_queue (snd (process_single_message msg self)) = sqs_queue self \<and>
         processed_count (snd (process_single_message msg self)) = processed_count self \<and>
         error_count (snd (process_single_message msg self)) = error_count self + 1"
proof -
  from assms consider
    (parse) "extract_records (Body msg) = Inl e"
    | (loop) "extract_records (Body msg) = Inr (Some records)"
        "process_records records 0 self = (Inl e, s1)"
    by blast
  then show ?thesis
  proof cases
    case parse
    then show ?thesis by (simp add: process_single_message_def)
  next
    case loop
    with process_records_frame [OF loop(2)] show ?thesis
      by (simp add: process_single_message_def)
  qed
qed

lemma message_completes:
  assumes "extract_records (Body msg) = Inr (Some records)"
    and "process_records records 0 self = (Inr k, s1)"
  shows "fst (process_single_message msg self) = (k = length records) \<and>
         (k = length records \<longrightarrow>
            ReceiptHandle msg \<notin> set (sqs_queue (snd (process_single_message msg self))) \<and>
            processed_count (snd (process_single_message msg self)) = processed_count self + k \<and>
            error_count (snd (process_single_message msg self)) = error_count self) \<and>
         (k \<noteq> length records \<longrightarrow>
            sqs_queue (snd (process_single_message msg self)) = sqs_queue self \<and>
            processed_count (snd (process_single_message msg self)) = processed_count self \<and>
            error_count (snd (process_single_message msg self)) =
              error_count self + (length records - k))"
  using assms process_records_frame [OF assms(2)]
  by (simp add: process_single_message_def delete_message_def Let_def)

lemma message_unknown_format:
  assumes "extract_records (Body msg) = Inr None"
  shows "process_single_message msg self = (False, self)"
  using assms by (simp add: process_single_message_def)

text \<open>
  C2, as the code has it. A message is acknowledged only when the record loop runs to its
  end with every record counted as a success; then it is removed from the queue and
  \<open>processed_count\<close> grows by that number. When the loop runs to its end with fewer
  successes, the message stays, \<open>processed_count\<close> is unchanged and \<open>error_count\<close> grows
  by the number of records that did not succeed. When parsing the body or reading a
  record raises, the message stays, \<open>processed_count\<close> is unchanged and \<open>error_count\<close>
  grows by exactly one, however many records failed.
\<close>

theorem message_accounting:
  assumes "process_single_message msg self = (ok, self')"
  shows
    "(ok \<longrightarrow>
        (\<exists>records s1. extract_records (Body msg) = Inr (Some records) \<and>
           process_records records 0 self = (Inr (length records), s1) \<and>
           ReceiptHandle msg \<notin> set (sqs_queue self') \<and>
           processed_count self' = processed_count self + length records \<and>
           error_count self' = error_count self)) \<and>
     (\<not> ok \<longrightarrow> sqs_queue self' = sqs_queue self \<and> processed_count self' = processed_count self) \<and>
     (\<forall>records k s1.
        extract_records (Body msg) = Inr (Some records) \<longrightarrow>
        process_records records 0 self = (Inr k, s1) \<longrightarrow>
          k \<le> length records \<and> (ok \<longleftrightarrow> k = length records) \<and>
          (\<not> ok \<longrightarrow> error_count self' = error_count self + (length records - k))) \<and>
     (\<forall>records e s1.
        extract_records (Body msg) = Inl e \<or>
        (extract_records (Body msg) = Inr (Some records) \<and>
         process_records records 0 self = (Inl e, s1)) \<longrightarrow>
          \<not> ok \<and> error_count self' = error_count self + 1)"
proof -
  have raises: "\<not> ok \<and> sqs_queue self' = sqs_queue self \<and>
                processed_count self' = processed_count self \<and>
                error_count self' = error_count self + 1"
    if "extract_records (Body msg) = Inl e \<or>
        (extract_records (Body msg) = Inr (Some records) \<and>
         process_records records 0 self = (Inl e, s1))" for records e s1
    using message_raises [OF that] assms by simp
  have completes:
    "k \<le> length records \<and> (ok \<longleftrightarrow> k = length records) \<and>
     (ok \<longrightarrow> ReceiptHandle msg \<notin> set (sqs_queue self') \<and>
             processed_count self' = processed_count self + length records \<and>
             error_count self' = error_count self) \<and>
     (\<not> ok \<longrightarrow> sqs_queue self' = sqs_queue self \<and>
               processed_count self' = processed_count self \<and>
               error_count self' = error_count self + (length records - k))"
    if "extract_records (Body msg) = Inr (Some records)"
      and "process_records records 0 self = (Inr k, s1)" for records k s1
    using message_completes [OF that] process_records_le_length [OF that(2)] assms by auto
  show ?thesis
  proof (cases "extract_records (Body msg)")
    case (Inl e)
    with raises [of e] show ?thesis by simp
  next
    case (Inr extracted)
    show ?thesis
    proof (cases extracted)
      case None
      with Inr message_unknown_format [of msg self] assms show ?thesis by simp
    next
      case (Some records)
      obtain res s1 where run: "process_records records 0 self = (res, s1)"
        by (cases "process_records records 0 self")
      show ?thesis
      proof (cases res)
        case (Inl e)
        with Inr Some run raises [of e records s1] show ?thesis by simp
      next
        case inr: (Inr k)
        with Inr Some run completes [of records k s1] show ?thesis by auto
      qed
    qed
  qed
qed

text \<open>
  The three outcomes on sample messages: one valid file (acknowledged), a valid and a
  broken file (left on the queue, one error), a broken file and a record without keys
  (the loop raises).
\<close>

theorem message_accounting_witness:
  "(fst (process_single_message (sample_message [forrest_record]) sample_worker) \<and>
    ''rh-1'' \<notin> set (sqs_queue (snd (process_single_message (sample_message [forrest_record])
                                        sample_worker))) \<and>
    processed_count (snd (process_single_message (sample_message [forrest_record])
                            sample_worker)) = 1) \<and>
   (\<not> fst (process_single_message (sample_message [forrest_record, broken_record])
             sample_worker) \<and>
    sqs_queue (snd (process_single_message (sample_message [forrest_record, broken_record])
                      sample_worker)) = [''rh-1''] \<and>
    error_count (snd (process_single_message (sample_message [forrest_record, broken_record])
                        sample_worker)) = 1) \<and>
   (\<not> fst (process_single_message (sample_message [broken_record, keyless_record])
             sample_worker) \<and>
    error_count (snd (process_single_message (sample_message [broken_record, keyless_record])
                        sample_worker)) = 1)"
proof -
  obtain ok1 w1 where r1:
    "process_single_message (sample_message [forrest_record]) sample_worker = (ok1, w1)"
    by (cases "process_single_message (sample_message [forrest_record]) sample_worker")
  obtain ok2 w2 where r2:
    "process_single_message (sample_message [forrest_record, broken_record]) sample_worker
       = (ok2, w2)"
    by (cases "process_single_message (sample_message [forrest_record, broken_record])
                 sample_worker")
  obtain ok3 w3 where r3:
    "process_single_message (sample_message [broken_record, keyless_record]) sample_worker
       = (ok3, w3)"
    by (cases "process_single_message (sample_message [broken_record, keyless_record])
                 sample_worker")
  have body: "extract_records (Body (sample_message rs)) = Inr (Some rs)" for rs
    by (simp add: extract_records_def sample_message_def)
  have handle: "ReceiptHandle (sample_message rs) = ''rh-1''" for rs
    by (simp add: sample_message_def)
  have start: "sqs_queue sample_worker = [''rh-1''] \<and> processed_count sample_worker = 0 \<and>
               error_count sample_worker = 0"
    by (simp add: sample_worker_def)
  have k1: "fst (process_records [forrest_record] 0 sample_worker) = Inr 1"
    by code_simp
  have k2: "fst (process_records [forrest_record, broken_record] 0 sample_worker) = Inr 1"
    by code_simp
  have k3: "fst (process_records [broken_record, keyless_record] 0 sample_worker)
              = Inl (KeyError ''s3'')"
    by code_simp
  have p1: "process_records [forrest_record] 0 sample_worker =
              (Inr 1, snd (process_records [forrest_record] 0 sample_worker))"
    using k1 by (metis prod.collapse)
  have p2: "process_records [forrest_record, broken_record] 0 sample_worker =
              (Inr 1, snd (process_records [forrest_record, broken_record] 0 sample_worker))"
    using k2 by (metis prod.collapse)
  have p3: "process_records [broken_record, keyless_record] 0 sample_worker =
              (Inl (KeyError ''s3''),
               snd (process_records [broken_record, keyless_record] 0 sample_worker))"
    using k3 by (metis prod.collapse)
  from message_accounting [OF r1] body [of "[forrest_record]"] p1
  have a1: "ok1 \<and> ReceiptHandle (sample_message [forrest_record]) \<notin> set (sqs_queue w1) \<and>
            processed_count w1 = processed_count sample_worker + 1"
    by (auto simp del: process_records.simps)
  from message_accounting [OF r2] body [of "[forrest_record, broken_record]"] p2
  have a2: "\<not> ok2 \<and> sqs_queue w2 = sqs_queue sample_worker \<and>
            error_count w2 = error_count sample_worker + 1"
    by (auto simp del: process_records.simps)
  from message_accounting [OF r3] body [of "[broken_record, keyless_record]"] p3
  have a3: "\<not> ok3 \<and> error_count w3 = error_count sample_worker + 1"
    by (auto simp del: process_records.simps)
  from a1 a2 a3 r1 r2 r3 handle start show ?thesis by simp
qed

text \<open>
  The claim as written says that \<open>error_count\<close> grows by the number of failed records. In
  the sample message below both records fail (the first file is not valid JSON, the second
  record lacks its \<open>s3\<close> keys) and \<open>error_count\<close> grows by one.
\<close>

theorem error_count_not_failed_records:
  "length [broken_record, keyless_record] = 2 \<and>
   fst (process_s3_file ''movies'' ''validated/imdb/broken.json'' sample_worker) = False \<and>
   s3 keyless_record = None \<and>
   fst (process_single_message (sample_message [broken_record, keyless_record]) sample_worker)
     = False \<and>
   error_count (snd (process_single_message (sample_message [broken_record, keyless_record])
                       sample_worker)) = error_count sample_worker + 1"
  by code_simp


end
